theory Spec2Isabelle
  imports Complex_Main "HOL-Library.Word"
begin

unbundle bit_operations_syntax

chapter \<open>The model\<close>

section \<open>Common types\<close>

text \<open>
  Go's \<open>byte\<close> is an 8-bit word and \<open>[]byte\<close> a list of them. Go's \<open>int\<close> is
  modelled as \<open>int\<close> wherever the code only adds small lengths or reads bits of it
  (\<open>x >> k\<close> on a signed integer is \<open>drop_bit k x\<close>, \<open>byte(x)\<close> keeps the low
  eight bits), and as a 64-bit word where the code shifts values left and can wrap.
  A \<open>float64\<close> is modelled as a real number.
\<close>

type_synonym byte = "8 word"

definition byte_of_int :: "int \<Rightarrow> byte" where
  "byte_of_int n = word_of_int n"

datatype error =
    EOF
  | UnexpectedToken byte
  | Panic
  | CipherError
  | AESTooShort nat
  | UnsupportedVersion int
  | XRefError
  | TypeMismatch

section \<open>Objects\<close>

text \<open>
  Modelled from the spec: the declarations of the object types (the Go interface
  \<open>Object\<close> and its implementations) are in a file that is not among the sources; the
  constructors below are the variants of section 3 of the specification, under the names
  the code uses for them. A name and a keyword are Go strings, a literal string and a hex
  string carry raw bytes, a dictionary is a list of key and value pairs read by its first
  match, and a number is a \<open>float64\<close>.
\<close>

datatype Object =
    NullObject
  | BooleanObject bool
  | NumberObject real
  | NameObject string
  | StringObject "byte list"
  | HexStringObject "byte list"
  | ArrayObject "Object list"
  | DictionaryObject "(string \<times> Object) list"
  | StreamObject "(string \<times> Object) list" "byte list"
  | IndirectObject int int
  | KeywordObject string

text \<open>The byte of an ASCII character, for the character literals of the code.\<close>

definition ch :: "char \<Rightarrow> byte" where
  "ch c = of_char c"

section \<open>Encryption handler\<close>

text \<open>
  The handler of the standard security handler. The primitives of Go's \<open>crypto\<close>
  packages are parameters, collected in a record: \<open>md5_Sum\<close> is \<open>md5.Sum\<close>;
  \<open>rc4_NewCipher key\<close> is \<open>rc4.NewCipher\<close>, failing on a key it refuses and otherwise
  giving the function \<open>XORKeyStream\<close> applies; \<open>aes_NewCipher key\<close> is
  \<open>aes.NewCipher\<close>, failing likewise and otherwise giving CBC decryption from an
  initialisation vector and a ciphertext of whole blocks. The handler keeps the fields
  that \<open>computeObjectKey\<close> and \<open>Decrypt\<close> read; its pointer \<open>Dict\<close> to the
  encryption dictionary is read by neither and is left out.
\<close>

record crypto =
  md5_Sum :: "byte list \<Rightarrow> byte list"
  rc4_NewCipher :: "byte list \<Rightarrow> (byte list \<Rightarrow> byte list) option"
  aes_NewCipher :: "byte list \<Rightarrow> (byte list \<Rightarrow> byte list \<Rightarrow> byte list) option"

record EncryptionHandler =
  FileID :: "byte list"
  EncryptKey :: "byte list"
  V :: int
  R :: int

text \<open>
  \<open>computeObjectKey\<close>: \<open>make([]byte, keyLen+5)\<close>, \<open>copy\<close>, five indexed stores, the
  optional \<open>append\<close> of the salt, \<open>md5.Sum\<close> and the slice \<open>hash[:n]\<close>.
\<close>

definition computeObjectKey :: "crypto \<Rightarrow> EncryptionHandler \<Rightarrow> int \<Rightarrow> int \<Rightarrow> byte list" where
  "computeObjectKey c h objNum genNum =
     (let keyLen = length (EncryptKey h);
          key = EncryptKey h @ replicate 5 0;
          key = key[keyLen := byte_of_int objNum];
          key = key[keyLen + 1 := byte_of_int (drop_bit 8 objNum)];
          key = key[keyLen + 2 := byte_of_int (drop_bit 16 objNum)];
          key = key[keyLen + 3 := byte_of_int genNum];
          key = key[keyLen + 4 := byte_of_int (drop_bit 8 genNum)];
          key = (if V h \<ge> 4 then key @ [0x73, 0x41, 0x6C, 0x54] else key);
          hash = md5_Sum c key;
          n = keyLen + 5;
          n = (if n > 16 then 16 else n)
      in take n hash)"

definition decryptRC4 :: "crypto \<Rightarrow> EncryptionHandler \<Rightarrow> byte list \<Rightarrow> int \<Rightarrow> int \<Rightarrow> error + byte list" where
  "decryptRC4 c h data objNum genNum =
     (if length data = 0 then Inr data
      else let key = computeObjectKey c h objNum genNum
           in case rc4_NewCipher c key of
                None \<Rightarrow> Inl CipherError
              | Some XORKeyStream \<Rightarrow> Inr (XORKeyStream data))"

definition removePadding :: "byte list \<Rightarrow> error + byte list" where
  "removePadding data =
     (if length data = 0 then Inr data
      else let paddingLen = unat (last data)
           in if paddingLen = 0 \<or> paddingLen > 16 \<or> paddingLen > length data then Inr data
              else if list_ex (\<lambda>b. b \<noteq> of_nat paddingLen) (drop (length data - paddingLen) data)
                   then Inr data
                   else Inr (take (length data - paddingLen) data))"

definition decryptAES :: "crypto \<Rightarrow> EncryptionHandler \<Rightarrow> byte list \<Rightarrow> int \<Rightarrow> int \<Rightarrow> error + byte list" where
  "decryptAES c h data objNum genNum =
     (if length data < 16 then Inl (AESTooShort (length data))
      else let key = computeObjectKey c h objNum genNum;
               iv = take 16 data;
               ciphertext = drop 16 data
           in case aes_NewCipher c key of
                None \<Rightarrow> Inl CipherError
              | Some CryptBlocks \<Rightarrow>
                  if length ciphertext mod 16 \<noteq> 0 then Inl Panic
                  else removePadding (CryptBlocks iv ciphertext))"

definition Decrypt :: "crypto \<Rightarrow> EncryptionHandler \<Rightarrow> byte list \<Rightarrow> int \<Rightarrow> int \<Rightarrow> error + byte list" where
  "Decrypt c h data objNum genNum =
     (if length data = 0 then Inr data
      else if V h = 1 \<or> V h = 2 then decryptRC4 c h data objNum genNum
      else if V h = 4 then decryptAES c h data objNum genNum
      else Inl (UnsupportedVersion (V h)))"

text \<open>
  The words of the specification for the per-object key: a value as \<open>n\<close> bytes,
  little-endian, and the four ASCII bytes of the salt.
\<close>

definition le_bytes :: "nat \<Rightarrow> int \<Rightarrow> byte list" where
  "le_bytes n v = map (\<lambda>i. byte_of_int (v div 256 ^ i)) [0..<n]"

definition sAlT :: "byte list" where
  "sAlT = map of_char ''sAlT''"

section \<open>Lexer\<close>

text \<open>
  The lexer reads from a \<open>bufio.Reader\<close>; the model passes the input that is still
  unread. A reader returns its result together with the input left.
\<close>

definition isWhitespace :: "byte \<Rightarrow> bool" where
  "isWhitespace b \<longleftrightarrow> b = 0x00 \<or> b = 0x09 \<or> b = 0x0A \<or> b = 0x0C \<or> b = 0x0D \<or> b = 0x20"

definition isDelimiter :: "byte \<Rightarrow> bool" where
  "isDelimiter b \<longleftrightarrow> b \<in> set (map ch ''()<>[]{}/%'')"

definition isDigit :: "byte \<Rightarrow> bool" where
  "isDigit b \<longleftrightarrow> b \<ge> ch CHR ''0'' \<and> b \<le> ch CHR ''9''"

definition isAlpha :: "byte \<Rightarrow> bool" where
  "isAlpha b \<longleftrightarrow> (b \<ge> ch CHR ''a'' \<and> b \<le> ch CHR ''z'') \<or> (b \<ge> ch CHR ''A'' \<and> b \<le> ch CHR ''Z'')"

type_synonym lex_result = "(error + Object) \<times> byte list"

definition skipWhitespace :: "byte list \<Rightarrow> byte list" where
  "skipWhitespace inp = dropWhile isWhitespace inp"

text \<open>
  \<open>readHexString\<close>: the loop appends every byte that is neither \<open>>\<close> nor whitespace
  to \<open>data\<close>, as it is; the end of the input before \<open>>\<close> is an error.
\<close>

fun readHexString_loop :: "byte list \<Rightarrow> byte list \<Rightarrow> lex_result" where
  "readHexString_loop data [] = (Inl EOF, [])"
| "readHexString_loop data (b # rest) =
     (if b = ch CHR ''>'' then (Inr (HexStringObject data), rest)
      else if isWhitespace b then readHexString_loop data rest
      else readHexString_loop (data @ [b]) rest)"

definition readHexString :: "byte list \<Rightarrow> lex_result" where
  "readHexString inp = readHexString_loop [] (drop 1 inp)"

text \<open>
  \<open>bufio.Reader.ReadLine\<close>, by the input it leaves: the line through its line feed,
  or, when the 4096 bytes of the buffer hold no line feed, the buffer (without a final
  carriage return); at the end of the input, all of it.
\<close>

definition ReadLine :: "byte list \<Rightarrow> byte list" where
  "ReadLine inp =
     (let buf = take 4096 inp
      in if 0x0A \<in> set buf then drop 1 (dropWhile (\<lambda>b. b \<noteq> 0x0A) inp)
         else if length inp < 4096 then []
         else if last buf = 0x0D then drop 4095 inp
         else drop 4096 inp)"

text \<open>
  The readers of the other token kinds are parameters of \<open>ReadObject\<close>: no property
  below depends on what they return.
\<close>

record sub_lexers =
  readName :: "byte list \<Rightarrow> lex_result"
  readString :: "byte list \<Rightarrow> lex_result"
  readDictionary :: "byte list \<Rightarrow> lex_result"
  readArray :: "byte list \<Rightarrow> lex_result"
  readNumberOrReference :: "byte list \<Rightarrow> lex_result"
  readKeywordOrBoolean :: "byte list \<Rightarrow> lex_result"

lemma length_ReadLine: "length (ReadLine inp) \<le> length inp"
proof -
  have "length (dropWhile (\<lambda>b. b \<noteq> 0x0A) inp) \<le> length inp"
    by (rule length_dropWhile_le)
  then show ?thesis
    by (auto simp: ReadLine_def Let_def)
qed

lemma length_skipWhitespace: "length (skipWhitespace inp) \<le> length inp"
  by (simp add: skipWhitespace_def length_dropWhile_le)

function ReadObject :: "sub_lexers \<Rightarrow> byte list \<Rightarrow> lex_result" where
  "ReadObject sub inp0 =
     (let inp = skipWhitespace inp0
      in case inp of
           [] \<Rightarrow> (Inl EOF, [])
         | token # _ \<Rightarrow>
             if token = ch CHR ''/'' then readName sub inp
             else if token = ch CHR ''('' then readString sub inp
             else if token = ch CHR ''<'' then
               (let peek = take 2 inp
                in if length peek = 2 \<and> peek ! 1 = ch CHR ''<'' then readDictionary sub inp
                   else readHexString inp)
             else if token = ch CHR ''['' then readArray sub inp
             else if token = ch CHR ''%'' then ReadObject sub (ReadLine (drop 1 inp))
             else if token = 0x27 \<or> token = 0x22 then
               (Inr (KeywordObject [char_of (unat token)]), drop 1 inp)
             else if isDigit token \<or> token = ch CHR ''-'' \<or> token = ch CHR ''+''
                     \<or> token = ch CHR ''.''
               then readNumberOrReference sub inp
             else if isAlpha token then readKeywordOrBoolean sub inp
             else (Inl (UnexpectedToken token), inp))"
  by pat_completeness auto
termination
proof (relation "measure (\<lambda>(sub, inp). length inp)", goal_cases)
  case 1
  show ?case by simp
next
  case (2 sub inp0 inp token rest)
  have "length (ReadLine (drop 1 inp)) \<le> length (drop 1 inp)"
    by (rule length_ReadLine)
  also have "\<dots> < length inp"
  proof -
    have "inp \<noteq> []" using 2 by (metis list.distinct(1))
    then show ?thesis by simp
  qed
  also have "\<dots> \<le> length inp0" using 2 by (simp add: length_skipWhitespace)
  finally show ?case by simp
qed

text \<open>
  The words of the specification: \<open>hex(b)\<close>, two hexadecimal digits for every byte, the
  high nibble first.
\<close>

definition hexDigits :: "byte list" where
  "hexDigits = map ch ''0123456789abcdef''"

definition hexEncode :: "byte list \<Rightarrow> byte list" where
  "hexEncode bs =
     concat (map (\<lambda>b. [hexDigits ! unat (drop_bit 4 b), hexDigits ! unat (b AND 0x0F)]) bs)"

section \<open>Cross-reference tables\<close>

text \<open>
  Go's \<open>int64\<close>, and its \<open>int\<close> in this part of the code, are 64-bit words: object
  numbers, offsets and field values are added and shifted as the machine does.
  \<open>go_int\<close> is the conversion \<open>int(x)\<close> of a \<open>float64\<close>, which drops the fraction.
\<close>

type_synonym int64 = "64 word"

definition go_int :: "real \<Rightarrow> int64" where
  "go_int x = word_of_int (if x < 0 then \<lceil>x\<rceil> else \<lfloor>x\<rfloor>)"

record XRefEntry =
  Offset :: int64
  Generation :: int64
  Free :: bool
  Compressed :: bool
  StreamObj :: int64
  StreamIdx :: int64

record XRefTable =
  Entries :: "int64 \<rightharpoonup> XRefEntry"
  Trailer :: "string \<rightharpoonup> Object"

definition NewXRefTable :: XRefTable where
  "NewXRefTable = \<lparr> Entries = Map.empty, Trailer = Map.empty \<rparr>"

text \<open>
  \<open>strconv.ParseInt(s, 10, 64)\<close> with its error dropped, as the code calls it: an
  optional sign and decimal digits; 0 on a syntax error, the nearest bound on overflow.
\<close>

definition ParseInt :: "byte list \<Rightarrow> int" where
  "ParseInt s =
     (case s of
        [] \<Rightarrow> 0
      | c # cs \<Rightarrow>
          let neg = (c = ch CHR ''-'');
              ds = (if c = ch CHR ''+'' \<or> c = ch CHR ''-'' then cs else s)
          in if ds = [] \<or> list_ex (\<lambda>d. \<not> isDigit d) ds then 0
             else let un = foldl (\<lambda>v d. v * 10 + uint (d - ch CHR ''0'')) 0 ds
                  in if neg then (if un > 2 ^ 63 then - (2 ^ 63) else - un)
                     else (if un \<ge> 2 ^ 63 then 2 ^ 63 - 1 else un))"

text \<open>
  The classical table. A line of twenty bytes gives an entry; \<open>standard_lines\<close> is the
  loop over the \<open>count\<close> lines of a subsection, reading from the bytes \<open>r\<close> that follow
  the subsection's header; an entry is stored only for an id that has none.
\<close>

definition xref_line_entry :: "byte list \<Rightarrow> XRefEntry" where
  "xref_line_entry lineBuf =
     \<lparr> Offset = word_of_int (ParseInt (take 10 lineBuf)),
       Generation = word_of_int (ParseInt (take 5 (drop 11 lineBuf))),
       Free = (lineBuf ! 17 = ch CHR ''f''),
       Compressed = False, StreamObj = 0, StreamIdx = 0 \<rparr>"

fun standard_lines ::
  "int64 \<Rightarrow> nat \<Rightarrow> nat \<Rightarrow> byte list \<Rightarrow> (int64 \<rightharpoonup> XRefEntry) \<Rightarrow> error + (int64 \<rightharpoonup> XRefEntry)" where
  "standard_lines start i 0 r E = Inr E"
| "standard_lines start i (Suc n) r E =
     (if length r < 20 then Inl EOF
      else let lineBuf = take 20 r;
               id' = start + of_nat i
           in standard_lines start (Suc i) n (drop 20 r)
                (if E id' = None then E(id' \<mapsto> xref_line_entry lineBuf) else E))"

text \<open>
  What the lexer delivers for a classical table is given: for every subsection the two
  objects of its header and the bytes that follow it, and then the object read after the
  keyword \<open>trailer\<close>, or the error that ended the reading.
\<close>

fun standard_subsections ::
  "(Object \<times> Object \<times> byte list) list \<Rightarrow> (int64 \<rightharpoonup> XRefEntry) \<Rightarrow> error + (int64 \<rightharpoonup> XRefEntry)" where
  "standard_subsections [] E = Inr E"
| "standard_subsections ((obj, obj2, r) # rest) E =
     (case (obj, obj2) of
        (NumberObject startNum, NumberObject countNum) \<Rightarrow>
          (let start = go_int startNum; count = go_int countNum
           in case standard_lines start 0 (nat (sint count)) r E of
                Inl e \<Rightarrow> Inl e
              | Inr E' \<Rightarrow> standard_subsections rest E')
      | _ \<Rightarrow> Inl XRefError)"

definition trailer_prev :: "(string \<times> Object) list \<Rightarrow> error + int64" where
  "trailer_prev tr =
     (case map_of tr ''/Prev'' of
        None \<Rightarrow> Inr 0
      | Some (NumberObject p) \<Rightarrow> Inr (go_int p)
      | Some _ \<Rightarrow> Inl Panic)"

definition readStandardXRef ::
  "XRefTable \<Rightarrow> (Object \<times> Object \<times> byte list) list \<Rightarrow> error + Object
     \<Rightarrow> error + (int64 \<times> (string \<times> Object) list \<times> XRefTable)" where
  "readStandardXRef t subsections trailer =
     (case standard_subsections subsections (Entries t) of
        Inl e \<Rightarrow> Inl e
      | Inr E' \<Rightarrow>
          (case trailer of
             Inl e \<Rightarrow> Inl e
           | Inr (DictionaryObject tr) \<Rightarrow>
               (case trailer_prev tr of
                  Inl e \<Rightarrow> Inl e
                | Inr prev \<Rightarrow> Inr (prev, tr, t\<lparr>Entries := E'\<rparr>))
           | Inr _ \<Rightarrow> Inl XRefError))"

text \<open>
  The stream form. \<open>readField\<close> reads \<open>width\<close> bytes big-endian from a
  \<open>bytes.Reader\<close>; bytes missing at the end of the data read as zero; a negative width
  makes \<open>make\<close> panic.
\<close>

definition readField :: "byte list \<Rightarrow> int64 \<Rightarrow> (error + int64) \<times> byte list" where
  "readField r width =
     (if width = 0 then (Inr 0, r)
      else if width <s 0 then (Inl Panic, r)
      else let n = unat width;
               buf = take n r @ replicate (n - length r) 0
           in (Inr (foldl (\<lambda>res b. push_bit 8 res OR ucast b) 0 buf), drop n r))"

text \<open>
  One row of the decoded stream (the body of the inner loop), the loop over the rows of
  a subsection and the loop over the pairs of \<open>/Index\<close>.
\<close>

definition xref_stream_row ::
  "int64 \<times> int64 \<times> int64 \<Rightarrow> int64 \<Rightarrow> byte list \<Rightarrow> (int64 \<rightharpoonup> XRefEntry)
     \<Rightarrow> error + byte list \<times> (int64 \<rightharpoonup> XRefEntry)" where
  "xref_stream_row w id' r E =
     (case w of (w0, w1, w2) \<Rightarrow>
        case readField r w0 of
          (Inl e, _) \<Rightarrow> Inl e
        | (Inr f1, r1) \<Rightarrow>
            case readField r1 w1 of
              (Inl e, _) \<Rightarrow> Inl e
            | (Inr f2, r2) \<Rightarrow>
                case readField r2 w2 of
                  (Inl e, _) \<Rightarrow> Inl e
                | (Inr f3, r3) \<Rightarrow>
                    Inr (r3,
                      if E id' = None then
                        (if f1 = 1 then
                           E(id' \<mapsto> \<lparr> Offset = f2, Generation = f3, Free = False,
                                      Compressed = False, StreamObj = 0, StreamIdx = 0 \<rparr>)
                         else if f1 = 2 then
                           E(id' \<mapsto> \<lparr> Offset = 0, Generation = 0, Free = False,
                                      Compressed = True, StreamObj = f2, StreamIdx = f3 \<rparr>)
                         else if f1 = 0 then
                           E(id' \<mapsto> \<lparr> Offset = 0, Generation = f3, Free = True,
                                      Compressed = False, StreamObj = 0, StreamIdx = 0 \<rparr>)
                         else E)
                      else E))"

fun xref_stream_rows ::
  "int64 \<times> int64 \<times> int64 \<Rightarrow> int64 \<Rightarrow> nat \<Rightarrow> nat \<Rightarrow> byte list \<Rightarrow> (int64 \<rightharpoonup> XRefEntry)
     \<Rightarrow> error + byte list \<times> (int64 \<rightharpoonup> XRefEntry)" where
  "xref_stream_rows w start j 0 r E = Inr (r, E)"
| "xref_stream_rows w start j (Suc n) r E =
     (case xref_stream_row w (start + of_nat j) r E of
        Inl e \<Rightarrow> Inl e
      | Inr (r', E') \<Rightarrow> xref_stream_rows w start (Suc j) n r' E')"

fun xref_stream_index ::
  "int64 \<times> int64 \<times> int64 \<Rightarrow> int64 list \<Rightarrow> byte list \<Rightarrow> (int64 \<rightharpoonup> XRefEntry)
     \<Rightarrow> error + (int64 \<rightharpoonup> XRefEntry)" where
  "xref_stream_index w [] r E = Inr E"
| "xref_stream_index w [start] r E = Inl Panic"
| "xref_stream_index w (start # count # index) r E =
     (case xref_stream_rows w start 0 (nat (sint count)) r E of
        Inl e \<Rightarrow> Inl e
      | Inr (r', E') \<Rightarrow> xref_stream_index w index r' E')"

text \<open>
  \<open>readXRefStream\<close> from the dictionary on. Its arguments are the object read after
  the header \<open>num gen obj\<close> (or the error of one of these reads) and the data after
  inflation and PNG prediction (or the error of reading or decoding them). \<open>String\<close>
  is the method of that name of the object types, a parameter since its code is not
  among the sources.
\<close>

fun numbers_of :: "Object list \<Rightarrow> error + int64 list" where
  "numbers_of [] = Inr []"
| "numbers_of (NumberObject v # vs) =
     (case numbers_of vs of Inl e \<Rightarrow> Inl e | Inr ns \<Rightarrow> Inr (go_int v # ns))"
| "numbers_of (_ # vs) = Inl Panic"

definition stream_index :: "(string \<times> Object) list \<Rightarrow> error + int64 list" where
  "stream_index streamDict =
     (case map_of streamDict ''/Index'' of
        Some (ArrayObject idxObj) \<Rightarrow> numbers_of idxObj
      | _ \<Rightarrow>
         (case map_of streamDict ''/Size'' of
            Some (NumberObject sizeObj) \<Rightarrow> Inr [0, go_int sizeObj]
          | _ \<Rightarrow> Inr []))"

definition readXRefStream ::
  "(Object \<Rightarrow> string) \<Rightarrow> XRefTable \<Rightarrow> error + Object \<Rightarrow> error + byte list
     \<Rightarrow> error + (int64 \<times> (string \<times> Object) list \<times> XRefTable)" where
  "readXRefStream String t obj body =
     (case obj of
        Inl e \<Rightarrow> Inl e
      | Inr (DictionaryObject streamDict) \<Rightarrow>
          (case map_of streamDict ''/Type'' of
             None \<Rightarrow> Inl XRefError
           | Some typeObj \<Rightarrow>
               if String typeObj \<noteq> ''/XRef'' then Inl XRefError
               else case map_of streamDict ''/Length'' of
                 Some (NumberObject lengthObj) \<Rightarrow>
                   (case map_of streamDict ''/W'' of
                      Some (ArrayObject [wArr0, wArr1, wArr2]) \<Rightarrow>
                        (case numbers_of [wArr0, wArr1, wArr2] of
                           Inr [w0, w1, w2] \<Rightarrow>
                             (case stream_index streamDict of
                                Inl e \<Rightarrow> Inl e
                              | Inr index \<Rightarrow>
                                  (case body of
                                     Inl e \<Rightarrow> Inl e
                                   | Inr decoded \<Rightarrow>
                                       (case xref_stream_index (w0, w1, w2) index decoded (Entries t) of
                                          Inl e \<Rightarrow> Inl e
                                        | Inr E' \<Rightarrow>
                                            (case trailer_prev streamDict of
                                               Inl e \<Rightarrow> Inl e
                                             | Inr prev \<Rightarrow>
                                                 Inr (prev, streamDict, t\<lparr>Entries := E'\<rparr>)))))
                         | _ \<Rightarrow> Inl Panic)
                    | _ \<Rightarrow> Inl XRefError)
               | _ \<Rightarrow> Inl XRefError)
      | Inr _ \<Rightarrow> Inl XRefError)"

text \<open>
  The file as \<open>ParseXRef\<close> sees it: what is read at an offset.
\<close>

datatype xref_section =
    NoSection
  | StandardSection "(Object \<times> Object \<times> byte list) list" "error + Object"
  | StreamSection "error + Object" "error + byte list"

text \<open>The merge of a section's trailer into the table's: only keys not yet present.\<close>

fun merge_trailer :: "(string \<rightharpoonup> Object) \<Rightarrow> (string \<times> Object) list \<Rightarrow> (string \<rightharpoonup> Object)" where
  "merge_trailer T [] = T"
| "merge_trailer T ((k, v) # tr) = merge_trailer (if T k = None then T(k \<mapsto> v) else T) tr"

text \<open>
  One turn of the loop of \<open>ParseXRef\<close> reads the section at \<open>nextOffset\<close>: a failed
  seek or a signature of fewer than four bytes is an error, the signature \<open>xref\<close>
  selects the classical table, anything else the stream.
\<close>

definition read_section ::
  "(Object \<Rightarrow> string) \<Rightarrow> XRefTable \<Rightarrow> xref_section
     \<Rightarrow> error + (int64 \<times> (string \<times> Object) list \<times> XRefTable)" where
  "read_section String table s =
     (case s of
        NoSection \<Rightarrow> Inl XRefError
      | StandardSection subsections trailer \<Rightarrow> readStandardXRef table subsections trailer
      | StreamSection obj body \<Rightarrow> readXRefStream String table obj body)"

text \<open>
  The loop over the chain of \<open>/Prev\<close> offsets. The map \<open>visited\<close> of the code is the
  list of its keys in the order they were added, and the loop returns it with its result.
  Nothing in the definition bounds the number of turns: that the loop returns is a
  theorem below.
\<close>

partial_function (option) ParseXRef_loop ::
  "(Object \<Rightarrow> string) \<Rightarrow> (int64 \<Rightarrow> xref_section) \<Rightarrow> int64 list \<Rightarrow> int64 \<Rightarrow> XRefTable
     \<Rightarrow> (int64 list \<times> (error + XRefTable)) option" where
  "ParseXRef_loop String file visited nextOffset table =
     (if nextOffset = 0 then Some (visited, Inr table)
      else if nextOffset \<in> set visited then Some (visited, Inr table)
      else
        (case read_section String table (file nextOffset) of
           Inl e \<Rightarrow> Some (visited @ [nextOffset], Inl e)
         | Inr (prevOffset, tr, table') \<Rightarrow>
             ParseXRef_loop String file (visited @ [nextOffset]) prevOffset
               (table'\<lparr>Trailer := merge_trailer (Trailer table') tr\<rparr>)))"

text \<open>
  \<open>ParseXRef\<close>; the offset found by \<open>findStartXRef\<close>, or its error, is given.
\<close>

definition ParseXRef ::
  "(Object \<Rightarrow> string) \<Rightarrow> (int64 \<Rightarrow> xref_section) \<Rightarrow> error + int64 \<Rightarrow> (error + XRefTable) option" where
  "ParseXRef String file startxref =
     (case startxref of
        Inl e \<Rightarrow> Some (Inl e)
      | Inr nextOffset \<Rightarrow>
          (case ParseXRef_loop String file [] nextOffset NewXRefTable of
             None \<Rightarrow> None
           | Some (visited, Inl e) \<Rightarrow> Some (Inl e)
           | Some (visited, Inr table) \<Rightarrow>
               if Trailer table ''/Root'' = None then Some (Inl XRefError) else Some (Inr table)))"

section \<open>CMap parser\<close>

text \<open>
  The table of a CMap maps a Go string, the bytes of a character code, to a Go string,
  the UTF-8 bytes of its text. Go's \<open>int\<close> is a 64-bit word here: \<open>hexToInt\<close>
  shifts it left, and the loop of a range compares and increments it.
\<close>

type_synonym rune = "32 word"
type_synonym CMap = "byte list \<rightharpoonup> byte list"

definition hexToInt :: "byte list \<Rightarrow> int64" where
  "hexToInt h = foldl (\<lambda>val b. push_bit 8 val OR ucast b) 0 h"

text \<open>
  \<open>intToHex\<close> fills \<open>out\<close> from its last byte to its first, with the low byte of
  \<open>val\<close> and an arithmetic shift at every step.
\<close>

fun intToHex :: "int64 \<Rightarrow> nat \<Rightarrow> byte list" where
  "intToHex val 0 = []"
| "intToHex val (Suc byteLen) = intToHex (signed_drop_bit 8 val) byteLen @ [ucast (val AND 0xFF)]"

text \<open>
  \<open>decodeUTF16BE\<close>: a destination of odd length is returned as it is; otherwise its
  16-bit units go through \<open>utf16.Decode\<close> of the Go library (a surrogate pair is one
  code point, a lone surrogate is \<open>U+FFFD\<close>) and the conversion of the code points
  to a string, which writes them in UTF-8.
\<close>

fun utf16_Decode :: "16 word list \<Rightarrow> rune list" where
  "utf16_Decode [] = []"
| "utf16_Decode [r] = (if r < 0xD800 \<or> 0xE000 \<le> r then [ucast r] else [0xFFFD])"
| "utf16_Decode (r # r2 # s) =
     (if r < 0xD800 \<or> 0xE000 \<le> r then ucast r # utf16_Decode (r2 # s)
      else if 0xD800 \<le> r \<and> r < 0xDC00 \<and> 0xDC00 \<le> r2 \<and> r2 < 0xE000
        then ((push_bit 10 (ucast r - 0xD800) OR (ucast r2 - 0xDC00)) + 0x10000) # utf16_Decode s
      else 0xFFFD # utf16_Decode (r2 # s))"

definition utf8_rune :: "rune \<Rightarrow> byte list" where
  "utf8_rune r =
     (if r < 0x80 then [ucast r]
      else if r < 0x800 then [0xC0 OR ucast (drop_bit 6 r), 0x80 OR (ucast r AND 0x3F)]
      else if (0xD800 \<le> r \<and> r < 0xE000) \<or> 0x10FFFF < r then [0xEF, 0xBF, 0xBD]
      else if r < 0x10000 then
        [0xE0 OR ucast (drop_bit 12 r), 0x80 OR (ucast (drop_bit 6 r) AND 0x3F),
         0x80 OR (ucast r AND 0x3F)]
      else
        [0xF0 OR ucast (drop_bit 18 r), 0x80 OR (ucast (drop_bit 12 r) AND 0x3F),
         0x80 OR (ucast (drop_bit 6 r) AND 0x3F), 0x80 OR (ucast r AND 0x3F)])"

fun u16s_of :: "byte list \<Rightarrow> 16 word list" where
  "u16s_of (hi # lo # b) = (push_bit 8 (ucast hi) OR ucast lo) # u16s_of b"
| "u16s_of _ = []"

definition decodeUTF16BE :: "byte list \<Rightarrow> byte list" where
  "decodeUTF16BE b =
     (if length b mod 2 \<noteq> 0 then b
      else concat (map utf8_rune (utf16_Decode (u16s_of b))))"

text \<open>
  The body of the loop of \<open>parseBFRange\<close>, from the three objects it has read: the
  array form, the sequential form, and anything else, which is skipped. The loop of the
  sequential form runs while \<open>i <= endCode - startCode\<close> on signed 64-bit integers:
  nothing in its definition bounds the number of turns.
\<close>

fun bfrange_array :: "CMap \<Rightarrow> int64 \<Rightarrow> int64 \<Rightarrow> nat \<Rightarrow> nat \<Rightarrow> Object list \<Rightarrow> CMap" where
  "bfrange_array m startCode endCode byteLen i [] = m"
| "bfrange_array m startCode endCode byteLen i (elem # arr) =
     bfrange_array
       (case elem of
          HexStringObject hexStr \<Rightarrow>
            (let currentCode = startCode + of_nat i
             in if currentCode \<le>s endCode
                then m(intToHex currentCode byteLen \<mapsto> decodeUTF16BE hexStr) else m)
        | _ \<Rightarrow> m)
       startCode endCode byteLen (Suc i) arr"

partial_function (option) bfrange_sequential ::
  "CMap \<Rightarrow> int64 \<Rightarrow> int64 \<Rightarrow> int64 \<Rightarrow> nat \<Rightarrow> nat \<Rightarrow> int64 \<Rightarrow> CMap option" where
  "bfrange_sequential m startCode endCode dstCode srcLen dstLen i =
     (if i \<le>s endCode - startCode then
        (let srcKey = intToHex (startCode + i) srcLen;
             dstVal = intToHex (dstCode + i) dstLen
         in bfrange_sequential (m(srcKey \<mapsto> decodeUTF16BE dstVal))
              startCode endCode dstCode srcLen dstLen (i + 1))
      else Some m)"

definition parseBFRange_entry :: "CMap \<Rightarrow> Object \<Rightarrow> Object \<Rightarrow> Object \<Rightarrow> CMap option" where
  "parseBFRange_entry m startObj endObj nextObj =
     (case (startObj, endObj) of
        (HexStringObject startHex, HexStringObject endHex) \<Rightarrow>
          (let startCode = hexToInt startHex;
               endCode = hexToInt endHex
           in case nextObj of
                ArrayObject arr \<Rightarrow> Some (bfrange_array m startCode endCode (length startHex) 0 arr)
              | HexStringObject dstStartHex \<Rightarrow>
                  bfrange_sequential m startCode endCode (hexToInt dstStartHex)
                    (length startHex) (length dstStartHex) 0
              | _ \<Rightarrow> Some m)
      | _ \<Rightarrow> Some m)"

section \<open>Floating point\<close>

text \<open>
  Go's \<open>float64\<close> is the binary64 format of IEEE 754. A value is a NaN, an infinity
  with its sign, or a finite number \<open>Finite s m e\<close>, which stands for \<open>m * 2 ^ e\<close>, taken
  negative when \<open>s\<close> holds. What the operations return has \<open>0 \<le> m < 2 ^ 53\<close> and
  \<open>- 1074 \<le> e \<le> 971\<close>, with \<open>2 ^ 52 \<le> m\<close> unless \<open>e = - 1074\<close>; a zero is
  \<open>Finite s 0 (- 1074)\<close> and has a sign.

  Every operation returns the \<open>float64\<close> nearest to its exact result, the one with
  the even significand when two are equally near, and an infinity from \<open>2 ^ 1024\<close> on.
  Each operation of an expression is rounded on its own, as in the code the Go compiler
  emits for amd64 by default; no multiplication is fused with an addition.
\<close>

datatype float64 = Finite bool int int | Infinity bool | NaN

definition pow2 :: "int \<Rightarrow> real" where
  "pow2 e = (if 0 \<le> e then 2 ^ nat e else 1 / 2 ^ nat (- e))"

fun magnitude :: "float64 \<Rightarrow> real" where
  "magnitude (Finite s m e) = of_int m * pow2 e"
| "magnitude _ = 0"

fun valof :: "float64 \<Rightarrow> real" where
  "valof (Finite s m e) = (if s then - (of_int m * pow2 e) else of_int m * pow2 e)"
| "valof _ = 0"

text \<open>
  Rounding a magnitude \<open>a\<close>. \<open>bitlen n\<close> is the number of binary digits of \<open>n\<close>, and
  \<open>ilog2 a\<close> the exponent \<open>k\<close> with \<open>2 ^ k \<le> a < 2 ^ (k + 1)\<close>. The significand is
  \<open>a\<close> divided by the unit in its last place and rounded to an integer, half-way cases
  to the even one; when that gives \<open>2 ^ 53\<close> the exponent moves up by one.
\<close>

function bitlen :: "int \<Rightarrow> int" where
  "bitlen n = (if n \<le> 0 then 0 else 1 + bitlen (n div 2))"
  by pat_completeness auto
termination
  by (relation "measure nat") auto

declare bitlen.simps [simp del]

definition ilog2 :: "real \<Rightarrow> int" where
  "ilog2 a = (if 1 \<le> a then bitlen \<lfloor>a\<rfloor> - 1
              else let k = bitlen \<lfloor>1 / a\<rfloor>
                   in if a * pow2 (k - 1) = 1 then 1 - k else - k)"

definition round_half_even :: "real \<Rightarrow> int" where
  "round_half_even y =
     (let q = \<lfloor>y\<rfloor>; r = y - of_int q
      in if r < 1 / 2 \<or> (r = 1 / 2 \<and> even q) then q else q + 1)"

definition float64_round :: "bool \<Rightarrow> real \<Rightarrow> float64" where
  "float64_round s a =
     (if a = 0 then Finite s 0 (- 1074)
      else let e = max (ilog2 a - 52) (- 1074);
               m = round_half_even (a / pow2 e);
               e = (if m = 2 ^ 53 then e + 1 else e);
               m = (if m = 2 ^ 53 then 2 ^ 52 else m)
           in if e > 971 then Infinity s else Finite s m e)"

text \<open>
  \<open>float64 x\<close> is the conversion of an exact number to \<open>float64\<close>: of a constant of
  the program text such as \<open>0.2\<close>, of an integer as in \<open>float64(len(rawBytes))\<close>.
\<close>

definition float64 :: "real \<Rightarrow> float64" where
  "float64 x = float64_round (x < 0) \<bar>x\<bar>"

text \<open>
  The operations: the special operands first, then the rounding of the exact result. An
  exact sum of zero is the negative zero only when both operands are negative.
\<close>

fun float64_neg :: "float64 \<Rightarrow> float64" where
  "float64_neg (Finite s m e) = Finite (\<not> s) m e"
| "float64_neg (Infinity s) = Infinity (\<not> s)"
| "float64_neg NaN = NaN"

fun float64_abs :: "float64 \<Rightarrow> float64" where
  "float64_abs (Finite s m e) = Finite False m e"
| "float64_abs (Infinity s) = Infinity False"
| "float64_abs NaN = NaN"

fun float64_add :: "float64 \<Rightarrow> float64 \<Rightarrow> float64" where
  "float64_add NaN b = NaN"
| "float64_add a NaN = NaN"
| "float64_add (Infinity s) (Infinity t) = (if s = t then Infinity s else NaN)"
| "float64_add (Infinity s) b = Infinity s"
| "float64_add a (Infinity t) = Infinity t"
| "float64_add (Finite s m e) (Finite t n f) =
     (let v = valof (Finite s m e) + valof (Finite t n f)
      in if v = 0 then Finite (s \<and> t) 0 (- 1074) else float64 v)"

fun float64_mul :: "float64 \<Rightarrow> float64 \<Rightarrow> float64" where
  "float64_mul NaN b = NaN"
| "float64_mul a NaN = NaN"
| "float64_mul (Infinity s) (Infinity t) = Infinity (s \<noteq> t)"
| "float64_mul (Infinity s) (Finite t n f) = (if n = 0 then NaN else Infinity (s \<noteq> t))"
| "float64_mul (Finite s m e) (Infinity t) = (if m = 0 then NaN else Infinity (s \<noteq> t))"
| "float64_mul (Finite s m e) (Finite t n f) =
     float64_round (s \<noteq> t) (magnitude (Finite s m e) * magnitude (Finite t n f))"

fun float64_div :: "float64 \<Rightarrow> float64 \<Rightarrow> float64" where
  "float64_div NaN b = NaN"
| "float64_div a NaN = NaN"
| "float64_div (Infinity s) (Infinity t) = NaN"
| "float64_div (Infinity s) (Finite t n f) = Infinity (s \<noteq> t)"
| "float64_div (Finite s m e) (Infinity t) = Finite (s \<noteq> t) 0 (- 1074)"
| "float64_div (Finite s m e) (Finite t n f) =
     (if n = 0 then (if m = 0 then NaN else Infinity (s \<noteq> t))
      else float64_round (s \<noteq> t) (magnitude (Finite s m e) / magnitude (Finite t n f)))"

text \<open>
  The comparisons are false as soon as one side is a NaN; the two zeros are equal.
\<close>

fun float64_less :: "float64 \<Rightarrow> float64 \<Rightarrow> bool" where
  "float64_less NaN b = False"
| "float64_less a NaN = False"
| "float64_less (Infinity s) (Infinity t) = (s \<and> \<not> t)"
| "float64_less (Infinity s) (Finite t n f) = s"
| "float64_less (Finite s m e) (Infinity t) = (\<not> t)"
| "float64_less (Finite s m e) (Finite t n f) = (valof (Finite s m e) < valof (Finite t n f))"

fun float64_less_eq :: "float64 \<Rightarrow> float64 \<Rightarrow> bool" where
  "float64_less_eq NaN b = False"
| "float64_less_eq a NaN = False"
| "float64_less_eq (Infinity s) (Infinity t) = (s \<or> \<not> t)"
| "float64_less_eq (Infinity s) (Finite t n f) = s"
| "float64_less_eq (Finite s m e) (Infinity t) = (\<not> t)"
| "float64_less_eq (Finite s m e) (Finite t n f) = (valof (Finite s m e) \<le> valof (Finite t n f))"

text \<open>
  With these the expressions of the program are written as in its text: \<open>a * b + c\<close>,
  \<open>a - b\<close>, \<open>a / b\<close>, \<open>- a\<close>, \<open>\<bar>a\<bar>\<close> for \<open>math.Abs\<close>, \<open>a < b\<close>, and \<open>0\<close>
  and \<open>1\<close> for the constants. None of the laws of a field is claimed for them.
\<close>

instantiation float64 :: "{zero, one, plus, minus, uminus, times, inverse, abs, ord}"
begin
definition zero_float64 :: float64 where "0 = Finite False 0 (- 1074)"
definition one_float64 :: float64 where "1 = Finite False (2 ^ 52) (- 52)"
definition plus_float64 :: "float64 \<Rightarrow> float64 \<Rightarrow> float64" where "a + b = float64_add a b"
definition uminus_float64 :: "float64 \<Rightarrow> float64" where "- a = float64_neg a"
definition minus_float64 :: "float64 \<Rightarrow> float64 \<Rightarrow> float64" where "a - b = float64_add a (float64_neg b)"
definition times_float64 :: "float64 \<Rightarrow> float64 \<Rightarrow> float64" where "a * b = float64_mul a b"
definition divide_float64 :: "float64 \<Rightarrow> float64 \<Rightarrow> float64" where "divide a b = float64_div a b"
definition inverse_float64 :: "float64 \<Rightarrow> float64" where "inverse a = float64_div (Finite False (2 ^ 52) (- 52)) a"
definition abs_float64 :: "float64 \<Rightarrow> float64" where "\<bar>a\<bar> = float64_abs a"
definition less_float64 :: "float64 \<Rightarrow> float64 \<Rightarrow> bool" where "a < b \<longleftrightarrow> float64_less a b"
definition less_eq_float64 :: "float64 \<Rightarrow> float64 \<Rightarrow> bool" where "a \<le> b \<longleftrightarrow> float64_less_eq a b"
instance ..
end

section \<open>Text extractor\<close>

text \<open>
  The state of the extractor, without its reader and its page. A \<open>Matrix\<close> is Go's
  array of six \<open>float64\<close>; a \<open>*Font\<close> and the pointer to the list of images are
  options (\<open>None\<close> for \<open>nil\<close>); the output buffer is a list of bytes.
\<close>

datatype Matrix = Matrix (m0: float64) (m1: float64) (m2: float64) (m3: float64) (m4: float64) (m5: float64)

definition IdentityMatrix :: Matrix where
  "IdentityMatrix = Matrix 1 0 0 1 0 0"

definition Mult :: "Matrix \<Rightarrow> Matrix \<Rightarrow> Matrix" where
  "Mult a b = Matrix
     (m0 a * m0 b + m1 a * m2 b)
     (m0 a * m1 b + m1 a * m3 b)
     (m2 a * m0 b + m3 a * m2 b)
     (m2 a * m1 b + m3 a * m3 b)
     (m4 a * m0 b + m5 a * m2 b + m4 b)
     (m4 a * m1 b + m5 a * m3 b + m5 b)"

record GraphicsState =
  CTM :: Matrix

record Font =
  BaseFont :: string
  CMap :: "CMap option"
  Encoding :: "int \<rightharpoonup> string"
  Widths :: "int \<rightharpoonup> float64"
  MissingW :: float64
  SpaceWidth :: float64
  IsCID :: bool

record TextState =
  Font :: "Font option"
  FontSize :: float64
  CharSpacing :: float64
  WordSpacing :: float64
  Scale :: float64
  Leading :: float64
  Rise :: float64
  TM :: Matrix
  TLM :: Matrix

definition NewTextState :: TextState where
  "NewTextState = \<lparr> Font = None, FontSize = 0, CharSpacing = 0, WordSpacing = 0, Scale = float64 100,
                     Leading = 0, Rise = 0, TM = IdentityMatrix, TLM = IdentityMatrix \<rparr>"

record Image =
  Type :: string
  ID :: string
  Rect :: "float64 list"
  Width :: float64
  Height :: float64
  ColorSpace :: string

record Extractor =
  gState :: GraphicsState
  gStack :: "GraphicsState list"
  textState :: TextState
  fonts :: "string \<rightharpoonup> Font"
  lastX :: float64
  lastY :: float64
  buffer :: "byte list"
  images :: "Image list option"
  xobjects :: "(string \<times> Object) list option"

text \<open>
  Modelled from the spec: the content-stream parser and its type \<open>Operation\<close> are in a
  file that is not among the sources; an operation is an operator keyword with its
  operands (section 4.6 of the specification).
\<close>

record Operation =
  Operator :: string
  Operands :: "Object list"

text \<open>
  Three parts of the extractor are parameters: the table \<open>glyphToUnicode\<close> of some
  250 glyph names; \<open>recordImage\<close>, which walks form XObjects with the content-stream
  parser and is given by the list of images it leaves; and \<open>math.Sqrt\<close> of Go's
  library.
\<close>

record extractor_env =
  glyphToUnicode :: "string \<rightharpoonup> byte list"
  recordImage :: "string \<Rightarrow> Extractor \<Rightarrow> Image list option"
  math_Sqrt :: "float64 \<Rightarrow> float64"

definition isPrintableASCII :: "byte \<Rightarrow> bool" where
  "isPrintableASCII b \<longleftrightarrow> b \<ge> 0x20 \<and> b \<le> 0x7E"

definition isWhitespaceChar :: "byte \<Rightarrow> bool" where
  "isWhitespaceChar b \<longleftrightarrow> b = 0x09 \<or> b = 0x0A \<or> b = 0x0D"

definition filterControlChars :: "byte list \<Rightarrow> byte list" where
  "filterControlChars rawBytes = filter (\<lambda>b. isPrintableASCII b \<or> isWhitespaceChar b) rawBytes"

text \<open>
  A \<open>NumberObject\<close> carries the number its \<open>float64\<close> stands for, and \<open>number\<close>
  gives that \<open>float64\<close>: the conversion is exact on every number a \<open>float64\<close> holds.
\<close>

definition number :: "Object \<Rightarrow> float64" where
  "number o' = (case o' of NumberObject n \<Rightarrow> float64 n | _ \<Rightarrow> 0)"

definition argsToMatrix :: "Object list \<Rightarrow> Matrix" where
  "argsToMatrix args = Matrix (number (args ! 0)) (number (args ! 1)) (number (args ! 2))
                              (number (args ! 3)) (number (args ! 4)) (number (args ! 5))"

text \<open>
  \<open>handleText\<close>, in the order of the code: the position of the string, the threshold
  of the word gap, the line and word break, the three ways of decoding, the width of the
  string, and the update of the position. \<open>spaceWidth\<close>, \<open>text_threshold\<close>,
  \<open>text_break\<close>, \<open>text_decode\<close> and \<open>text_width\<close> are its consecutive blocks.
\<close>

fun cmap_decode :: "CMap \<Rightarrow> byte list \<Rightarrow> byte list" where
  "cmap_decode m [] = []"
| "cmap_decode m [b] = (case m [b] of Some val \<Rightarrow> val | None \<Rightarrow> [b])"
| "cmap_decode m (b # b2 # rest) =
     (case m [b, b2] of
        Some val \<Rightarrow> val @ cmap_decode m rest
      | None \<Rightarrow>
          (case m [b] of
             Some val \<Rightarrow> val @ cmap_decode m (b2 # rest)
           | None \<Rightarrow> b # cmap_decode m (b2 # rest)))"

definition encoding_decode :: "(string \<rightharpoonup> byte list) \<Rightarrow> (int \<rightharpoonup> string) \<Rightarrow> byte \<Rightarrow> byte list" where
  "encoding_decode glyphs enc b =
     (case enc (uint b) of
        Some glyphName \<Rightarrow>
          (case glyphs glyphName of
             Some unicode \<Rightarrow> unicode
           | None \<Rightarrow>
               if length glyphName = 2 \<and> glyphName ! 0 = CHR ''/'' then [of_char (glyphName ! 1)]
               else [b])
      | None \<Rightarrow> [b])"

definition spaceWidth :: "TextState \<Rightarrow> float64" where
  "spaceWidth ts =
     (case Font ts of
        None \<Rightarrow> 0
      | Some f \<Rightarrow> (SpaceWidth f / float64 1000) * FontSize ts * (Scale ts / float64 100))"

definition text_threshold :: "TextState \<Rightarrow> float64" where
  "text_threshold ts =
     (let threshold = FontSize ts * float64 0.2
      in if spaceWidth ts > 0 then spaceWidth ts * float64 0.5 else threshold)"

definition text_break :: "TextState \<Rightarrow> float64 \<Rightarrow> float64 \<Rightarrow> float64 \<Rightarrow> float64 \<Rightarrow> byte list \<Rightarrow> byte list" where
  "text_break ts x y lastX' lastY' buf =
     (if \<bar>y - lastY'\<bar> > FontSize ts * float64 0.5 then
        (if length buf > 0 then buf @ [0x0A] else buf)
      else
        (let gap = x - lastX'
         in if gap > text_threshold ts then
              (if length buf > 0 \<and> last buf \<noteq> 0x0A \<and> last buf \<noteq> 0x20 then buf @ [0x20] else buf)
            else buf))"

definition text_decode :: "extractor_env \<Rightarrow> TextState \<Rightarrow> byte list \<Rightarrow> byte list" where
  "text_decode env ts rawBytes =
     (case Font ts of
        None \<Rightarrow> filterControlChars rawBytes
      | Some f \<Rightarrow>
          (case CMap f of
             Some m \<Rightarrow>
               if dom m \<noteq> {} then cmap_decode m rawBytes
               else if dom (Encoding f) \<noteq> {}
                 then concat (map (encoding_decode (glyphToUnicode env) (Encoding f)) rawBytes)
               else filterControlChars rawBytes
           | None \<Rightarrow>
               if dom (Encoding f) \<noteq> {}
                 then concat (map (encoding_decode (glyphToUnicode env) (Encoding f)) rawBytes)
               else filterControlChars rawBytes))"

definition text_width :: "TextState \<Rightarrow> byte list \<Rightarrow> byte list \<Rightarrow> float64" where
  "text_width ts rawBytes decoded =
     (case Font ts of
        Some f \<Rightarrow>
          if dom (Widths f) \<noteq> {} then
            (let totalWidth = foldl (\<lambda>acc b. acc + (case Widths f (uint b) of Some val \<Rightarrow> val | None \<Rightarrow> MissingW f)) 0 rawBytes;
                 totalWidth = (totalWidth / float64 1000) * FontSize ts;
                 totalWidth = totalWidth + float64 (real (length rawBytes)) * CharSpacing ts;
                 spaceCount = count_list decoded 0x20;
                 totalWidth = totalWidth + float64 (real spaceCount) * WordSpacing ts
             in totalWidth * (Scale ts / float64 100))
          else float64 (real (length decoded)) * FontSize ts * float64 0.5 * (Scale ts / float64 100)
      | None \<Rightarrow> float64 (real (length decoded)) * FontSize ts * float64 0.5 * (Scale ts / float64 100))"

definition handleText :: "extractor_env \<Rightarrow> Object \<Rightarrow> Extractor \<Rightarrow> Extractor" where
  "handleText env obj e =
     (case (case obj of StringObject s \<Rightarrow> Some s | HexStringObject h \<Rightarrow> Some h | _ \<Rightarrow> None) of
        None \<Rightarrow> e
      | Some rawBytes \<Rightarrow>
          (let ts = textState e;
               fm = Mult (TM ts) (CTM (gState e));
               x = m4 fm; y = m5 fm;
               buf = text_break ts x y (lastX e) (lastY e) (buffer e);
               decoded = text_decode env ts rawBytes;
               totalWidth = text_width ts rawBytes decoded;
               tm = TM ts
           in e\<lparr> buffer := buf @ decoded,
                 lastX := x + totalWidth,
                 lastY := y,
                 textState := ts\<lparr> TM := Matrix (m0 tm) (m1 tm) (m2 tm) (m3 tm)
                                          (m4 tm + totalWidth * m0 tm) (m5 tm + totalWidth * m1 tm) \<rparr> \<rparr>))"

text \<open>
  The earlier revision of the extractor has the same \<open>handleText\<close> but for the way
  it collects the decoded text: where the later one appends a byte with \<open>WriteByte\<close>,
  the earlier one appends \<open>string(b)\<close>, the UTF-8 form of the code point \<open>b\<close>, two
  bytes from \<open>0x80\<close> on.
\<close>

fun cmap_decode_old :: "CMap \<Rightarrow> byte list \<Rightarrow> byte list" where
  "cmap_decode_old m [] = []"
| "cmap_decode_old m [b] = (case m [b] of Some val \<Rightarrow> val | None \<Rightarrow> utf8_rune (ucast b))"
| "cmap_decode_old m (b # b2 # rest) =
     (case m [b, b2] of
        Some val \<Rightarrow> val @ cmap_decode_old m rest
      | None \<Rightarrow>
          (case m [b] of
             Some val \<Rightarrow> val @ cmap_decode_old m (b2 # rest)
           | None \<Rightarrow> utf8_rune (ucast b) @ cmap_decode_old m (b2 # rest)))"

definition encoding_decode_old :: "(string \<rightharpoonup> byte list) \<Rightarrow> (int \<rightharpoonup> string) \<Rightarrow> byte \<Rightarrow> byte list" where
  "encoding_decode_old glyphs enc b =
     (case enc (uint b) of
        Some glyphName \<Rightarrow>
          (case glyphs glyphName of
             Some unicode \<Rightarrow> unicode
           | None \<Rightarrow>
               if length glyphName = 2 \<and> glyphName ! 0 = CHR ''/''
               then utf8_rune (ucast (of_char (glyphName ! 1) :: byte))
               else utf8_rune (ucast b))
      | None \<Rightarrow> utf8_rune (ucast b))"

definition text_decode_old :: "extractor_env \<Rightarrow> TextState \<Rightarrow> byte list \<Rightarrow> byte list" where
  "text_decode_old env ts rawBytes =
     (case Font ts of
        None \<Rightarrow> filterControlChars rawBytes
      | Some f \<Rightarrow>
          (case CMap f of
             Some m \<Rightarrow>
               if dom m \<noteq> {} then cmap_decode_old m rawBytes
               else if dom (Encoding f) \<noteq> {}
                 then concat (map (encoding_decode_old (glyphToUnicode env) (Encoding f)) rawBytes)
               else filterControlChars rawBytes
           | None \<Rightarrow>
               if dom (Encoding f) \<noteq> {}
                 then concat (map (encoding_decode_old (glyphToUnicode env) (Encoding f)) rawBytes)
               else filterControlChars rawBytes))"

definition handleText_old :: "extractor_env \<Rightarrow> Object \<Rightarrow> Extractor \<Rightarrow> Extractor" where
  "handleText_old env obj e =
     (case (case obj of StringObject s \<Rightarrow> Some s | HexStringObject h \<Rightarrow> Some h | _ \<Rightarrow> None) of
        None \<Rightarrow> e
      | Some rawBytes \<Rightarrow>
          (let ts = textState e;
               fm = Mult (TM ts) (CTM (gState e));
               x = m4 fm; y = m5 fm;
               buf = text_break ts x y (lastX e) (lastY e) (buffer e);
               decoded = text_decode_old env ts rawBytes;
               totalWidth = text_width ts rawBytes decoded;
               tm = TM ts
           in e\<lparr> buffer := buf @ decoded,
                 lastX := x + totalWidth,
                 lastY := y,
                 textState := ts\<lparr> TM := Matrix (m0 tm) (m1 tm) (m2 tm) (m3 tm)
                                          (m4 tm + totalWidth * m0 tm) (m5 tm + totalWidth * m1 tm) \<rparr> \<rparr>))"

text \<open>
  \<open>processOp\<close>. An operand that is missing where the code indexes \<open>op.Operands\<close>
  is a panic. The operators \<open>'\<close> and \<open>"\<close> call \<open>processOp\<close> again with \<open>T*\<close> and
  \<open>Tj\<close>; these two cases are the functions \<open>op_Tstar\<close> and \<open>op_Tj\<close>.
\<close>

definition calculateImageRect :: "extractor_env \<Rightarrow> Extractor \<Rightarrow> float64 list" where
  "calculateImageRect env e =
     (let ctm = CTM (gState e)
      in [m4 ctm, m5 ctm, math_Sqrt env (m0 ctm * m0 ctm + m1 ctm * m1 ctm),
          math_Sqrt env (m2 ctm * m2 ctm + m3 ctm * m3 ctm)])"

definition dict_number :: "(string \<times> Object) list \<Rightarrow> string \<Rightarrow> string \<Rightarrow> float64" where
  "dict_number dict short long =
     (case map_of dict short of
        Some (NumberObject w) \<Rightarrow> float64 w
      | _ \<Rightarrow> (case map_of dict long of Some (NumberObject w) \<Rightarrow> float64 w | _ \<Rightarrow> 0))"

definition dict_name :: "(string \<times> Object) list \<Rightarrow> string \<Rightarrow> string \<Rightarrow> string" where
  "dict_name dict short long =
     (case map_of dict short of
        Some (NameObject cs) \<Rightarrow> cs
      | _ \<Rightarrow> (case map_of dict long of Some (NameObject cs) \<Rightarrow> cs | _ \<Rightarrow> []))"

definition recordInlineImage :: "extractor_env \<Rightarrow> (string \<times> Object) list \<Rightarrow> Extractor \<Rightarrow> Image list \<Rightarrow> Image list" where
  "recordInlineImage env dict e imgs =
     imgs @ [\<lparr> Type = ''inline_image'', ID = [], Rect = calculateImageRect env e,
               Width = dict_number dict ''/W'' ''/Width'',
               Height = dict_number dict ''/H'' ''/Height'',
               ColorSpace = dict_name dict ''/CS'' ''/ColorSpace'' \<rparr>]"

definition op_Tstar :: "Extractor \<Rightarrow> Extractor" where
  "op_Tstar e =
     (let ts = textState e;
          m = Matrix 1 0 0 1 0 (- Leading ts);
          tlm = Mult m (TLM ts)
      in e\<lparr> textState := ts\<lparr> TLM := tlm, TM := tlm \<rparr> \<rparr>)"

definition op_Tj :: "extractor_env \<Rightarrow> Object list \<Rightarrow> Extractor \<Rightarrow> Extractor" where
  "op_Tj env operands e = (if length operands > 0 then handleText env (operands ! 0) e else e)"

fun op_TJ :: "extractor_env \<Rightarrow> Object list \<Rightarrow> Extractor \<Rightarrow> Extractor" where
  "op_TJ env [] e = e"
| "op_TJ env (obj # arr) e =
     op_TJ env arr
       (case obj of
          NumberObject numObj \<Rightarrow>
            (let ts = textState e;
                 shift = (- float64 numObj) / float64 1000 * FontSize ts * (Scale ts / float64 100);
                 tm = TM ts
             in e\<lparr> textState := ts\<lparr> TM := Matrix (m0 tm) (m1 tm) (m2 tm) (m3 tm)
                                               (m4 tm + shift * m0 tm) (m5 tm + shift * m1 tm) \<rparr> \<rparr>)
        | _ \<Rightarrow> handleText env obj e)"

definition op_Td :: "bool \<Rightarrow> Object list \<Rightarrow> Extractor \<Rightarrow> error + Extractor" where
  "op_Td setLeading operands e =
     (if length operands < 2 then Inl Panic
      else let tx = number (operands ! 0); ty = number (operands ! 1);
               ts = textState e;
               ts = (if setLeading then ts\<lparr> Leading := - ty \<rparr> else ts);
               m = Matrix 1 0 0 1 tx ty;
               tlm = Mult m (TLM ts)
           in Inr (e\<lparr> textState := ts\<lparr> TLM := tlm, TM := tlm \<rparr> \<rparr>))"

definition processOp :: "extractor_env \<Rightarrow> Operation \<Rightarrow> Extractor \<Rightarrow> error + Extractor" where
  "processOp env op e =
     (let operator = Operator op; operands = Operands op; ts = textState e
      in if operator = ''q'' then Inr (e\<lparr> gStack := gStack e @ [gState e] \<rparr>)
         else if operator = ''Q'' then
           (if length (gStack e) > 0
            then Inr (e\<lparr> gState := last (gStack e), gStack := butlast (gStack e) \<rparr>)
            else Inr e)
         else if operator = ''cm'' then
           (if length operands = 6
            then Inr (e\<lparr> gState := (gState e)\<lparr> CTM := Mult (argsToMatrix operands) (CTM (gState e)) \<rparr> \<rparr>)
            else Inr e)
         else if operator = ''BT'' then
           Inr (e\<lparr> textState := ts\<lparr> TM := IdentityMatrix, TLM := IdentityMatrix \<rparr> \<rparr>)
         else if operator = ''Tc'' then
           (if operands = [] then Inl Panic
            else Inr (e\<lparr> textState := ts\<lparr> CharSpacing := number (operands ! 0) \<rparr> \<rparr>))
         else if operator = ''Tw'' then
           (if operands = [] then Inl Panic
            else Inr (e\<lparr> textState := ts\<lparr> WordSpacing := number (operands ! 0) \<rparr> \<rparr>))
         else if operator = ''Tz'' then
           (if operands = [] then Inl Panic
            else Inr (e\<lparr> textState := ts\<lparr> Scale := number (operands ! 0) \<rparr> \<rparr>))
         else if operator = ''TL'' then
           (if operands = [] then Inl Panic
            else Inr (e\<lparr> textState := ts\<lparr> Leading := number (operands ! 0) \<rparr> \<rparr>))
         else if operator = ''Tf'' then
           (if length operands < 2 then Inl Panic
            else let ts = (case operands ! 0 of
                             NameObject name \<Rightarrow>
                               (case fonts e name of
                                  Some font \<Rightarrow> ts\<lparr> Font := Some font \<rparr>
                                | None \<Rightarrow> ts)
                           | _ \<Rightarrow> ts)
                 in Inr (e\<lparr> textState := ts\<lparr> FontSize := number (operands ! 1) \<rparr> \<rparr>))
         else if operator = ''Td'' then op_Td False operands e
         else if operator = ''TD'' then op_Td True operands e
         else if operator = ''Tm'' then
           (if length operands = 6
            then Inr (e\<lparr> textState := ts\<lparr> TM := argsToMatrix operands, TLM := argsToMatrix operands \<rparr> \<rparr>)
            else Inr e)
         else if operator = ''T*'' then Inr (op_Tstar e)
         else if operator = ''Tj'' then Inr (op_Tj env operands e)
         else if operator = ''TJ'' then
           (if operands = [] then Inl Panic
            else case operands ! 0 of
                   ArrayObject arr \<Rightarrow> Inr (op_TJ env arr e)
                 | _ \<Rightarrow> Inr e)
         else if operator = [CHR 0x27] then Inr (op_Tj env operands (op_Tstar e))
         else if operator = [CHR 0x22] then
           (if length operands < 2 then Inl Panic
            else let e = e\<lparr> textState := ts\<lparr> WordSpacing := number (operands ! 0),
                                               CharSpacing := number (operands ! 1) \<rparr> \<rparr>
                 in Inr (op_Tj env (drop 2 operands) (op_Tstar e)))
         else if operator = ''INLINE_IMAGE'' then
           (case images e of
              Some imgs \<Rightarrow>
                (if length operands > 0 then
                   (case operands ! 0 of
                      DictionaryObject dict \<Rightarrow> Inr (e\<lparr> images := Some (recordInlineImage env dict e imgs) \<rparr>)
                    | _ \<Rightarrow> Inr e)
                 else Inr e)
            | None \<Rightarrow> Inr e)
         else if operator = ''Do'' then
           (case images e of
              Some imgs \<Rightarrow>
                (if length operands > 0 then
                   (case operands ! 0 of
                      NameObject name \<Rightarrow> Inr (e\<lparr> images := recordImage env name e \<rparr>)
                    | _ \<Rightarrow> Inr e)
                 else Inr e)
            | None \<Rightarrow> Inr e)
         else Inr e)"

text \<open>
  The words of the specification for the threshold of the word gap:
  \<open>max(size * 0.2, space_width_user * 0.5)\<close> with
  \<open>space_width_user = (SpaceWidth / 1000) * size * (scale / 100)\<close>.
\<close>

definition spec_threshold :: "float64 \<Rightarrow> float64 \<Rightarrow> float64 \<Rightarrow> float64" where
  "spec_threshold fontSize space_width scale =
     max (fontSize * float64 0.2)
         ((space_width / float64 1000) * fontSize * (scale / float64 100) * float64 0.5)"

section \<open>Reader: the page tree\<close>

text \<open>
  \<open>Reader.Resolve\<close> follows an indirect reference through \<open>GetObject\<close> and returns
  \<open>Null\<close> when that fails; anything else, \<open>nil\<close> included (\<open>None\<close> here, the value
  of a key that a dictionary does not have), is returned as it is. \<open>GetObject\<close>, which
  reads the object from the file, is a parameter.
\<close>

type_synonym object_store = "int \<times> int \<Rightarrow> error + Object"

definition Resolve :: "object_store \<Rightarrow> Object option \<Rightarrow> Object option" where
  "Resolve GetObject obj =
     (case obj of
        Some (IndirectObject objNum gen) \<Rightarrow>
          (case GetObject (objNum, gen) of
             Inl err \<Rightarrow> Some NullObject
           | Inr res \<Rightarrow> Some res)
      | _ \<Rightarrow> obj)"

text \<open>
  \<open>findPage\<close> walks the tree with the counter \<open>*targetIndex\<close>, which the model passes
  and returns. It calls itself for every kid it enters, and nothing bounds the depth of a
  tree whose \<open>/Kids\<close> lead back to a node: the model counts the depth with \<open>fuel\<close>
  and returns \<open>None\<close> when it runs out. A missing \<open>/Type\<close>, \<open>/Kids\<close> that are no
  array and a kid that is no dictionary are panics. \<open>skipped_count\<close> is the test of a
  kid's \<open>/Count\<close>: the count to take off the index when the kid is passed over.
\<close>

definition skipped_count :: "(string \<times> Object) list \<Rightarrow> int64 \<Rightarrow> int64 option" where
  "skipped_count kid targetIndex =
     (case map_of kid ''/Count'' of
        Some (NumberObject countObj) \<Rightarrow>
          (let count = go_int countObj
           in if targetIndex <s count then None else Some count)
      | _ \<Rightarrow> None)"

fun findPage ::
  "nat \<Rightarrow> (Object \<Rightarrow> string) \<Rightarrow> object_store \<Rightarrow> (string \<times> Object) list \<Rightarrow> int64
     \<Rightarrow> (error + (string \<times> Object) list option \<times> int64) option"
and findPage_kids ::
  "nat \<Rightarrow> (Object \<Rightarrow> string) \<Rightarrow> object_store \<Rightarrow> Object list \<Rightarrow> int64
     \<Rightarrow> (error + (string \<times> Object) list option \<times> int64) option" where
  "findPage 0 String GetObject node targetIndex = None"
| "findPage (Suc fuel) String GetObject node targetIndex =
     (case map_of node ''/Type'' of
        None \<Rightarrow> Some (Inl Panic)
      | Some typeObj \<Rightarrow>
          if String typeObj = ''/Page'' then
            (if targetIndex = 0 then Some (Inr (Some node, targetIndex))
             else Some (Inr (None, targetIndex - 1)))
          else
            (case Resolve GetObject (map_of node ''/Kids'') of
               Some (ArrayObject kids) \<Rightarrow> findPage_kids fuel String GetObject kids targetIndex
             | _ \<Rightarrow> Some (Inl Panic)))"
| "findPage_kids fuel String GetObject [] targetIndex = Some (Inr (None, targetIndex))"
| "findPage_kids fuel String GetObject (kidRef # kids) targetIndex =
     (case Resolve GetObject (Some kidRef) of
        Some (DictionaryObject kid) \<Rightarrow>
          (case skipped_count kid targetIndex of
             Some count \<Rightarrow> findPage_kids fuel String GetObject kids (targetIndex - count)
           | None \<Rightarrow>
               (case findPage fuel String GetObject kid targetIndex of
                  None \<Rightarrow> None
                | Some (Inl err) \<Rightarrow> Some (Inl err)
                | Some (Inr res) \<Rightarrow>
                    if fst res \<noteq> None then Some (Inr res)
                    else findPage_kids fuel String GetObject kids (snd res)))
      | _ \<Rightarrow> Some (Inl Panic))"

text \<open>\<open>GetPage\<close>: the catalog, its \<open>/Pages\<close>, and the walk from there.\<close>

definition GetPage ::
  "nat \<Rightarrow> (Object \<Rightarrow> string) \<Rightarrow> object_store \<Rightarrow> XRefTable \<Rightarrow> int64
     \<Rightarrow> (error + (string \<times> Object) list option) option" where
  "GetPage fuel String GetObject xref pageIndex =
     (case Resolve GetObject (Trailer xref ''/Root'') of
        Some (DictionaryObject catDict) \<Rightarrow>
          (case Resolve GetObject (map_of catDict ''/Pages'') of
             Some (DictionaryObject rootPagesDict) \<Rightarrow>
               (case findPage fuel String GetObject rootPagesDict pageIndex of
                  None \<Rightarrow> None
                | Some (Inl err) \<Rightarrow> Some (Inl err)
                | Some (Inr (found, targetIndex)) \<Rightarrow> Some (Inr found))
           | _ \<Rightarrow> Some (Inl TypeMismatch))
      | _ \<Rightarrow> Some (Inl TypeMismatch))"

text \<open>
  A page tree with \<open>n\<close> leaves of type \<open>/Page\<close>: every node has a \<open>/Type\<close>, every
  other node has \<open>/Kids\<close> that resolve to an array, and every kid resolves to a
  dictionary that is a page tree again. In the strict form, a \<open>/Count\<close> that a kid
  carries is a number from 0 to the number of leaves below the kid.
\<close>

definition count_bounded :: "(string \<times> Object) list \<Rightarrow> nat \<Rightarrow> bool" where
  "count_bounded kid m =
     (case map_of kid ''/Count'' of
        Some (NumberObject countObj) \<Rightarrow> 0 \<le> sint (go_int countObj) \<and> sint (go_int countObj) \<le> int m
      | _ \<Rightarrow> True)"

inductive page_tree ::
    "bool \<Rightarrow> (Object \<Rightarrow> string) \<Rightarrow> object_store \<Rightarrow> (string \<times> Object) list \<Rightarrow> nat \<Rightarrow> bool"
  and page_kids ::
    "bool \<Rightarrow> (Object \<Rightarrow> string) \<Rightarrow> object_store \<Rightarrow> Object list \<Rightarrow> nat \<Rightarrow> bool"
  for strict :: bool and String :: "Object \<Rightarrow> string" and GetObject :: object_store where
  leaf: "map_of node ''/Type'' = Some typeObj \<Longrightarrow> String typeObj = ''/Page''
         \<Longrightarrow> page_tree strict String GetObject node 1"
| inner: "map_of node ''/Type'' = Some typeObj \<Longrightarrow> String typeObj \<noteq> ''/Page''
         \<Longrightarrow> Resolve GetObject (map_of node ''/Kids'') = Some (ArrayObject kids)
         \<Longrightarrow> page_kids strict String GetObject kids n
         \<Longrightarrow> page_tree strict String GetObject node n"
| no_kids: "page_kids strict String GetObject [] 0"
| kid: "Resolve GetObject (Some kidRef) = Some (DictionaryObject kid)
         \<Longrightarrow> page_tree strict String GetObject kid m
         \<Longrightarrow> (strict \<longrightarrow> count_bounded kid m)
         \<Longrightarrow> page_kids strict String GetObject kids n
         \<Longrightarrow> page_kids strict String GetObject (kidRef # kids) (m + n)"

chapter \<open>Example inputs\<close>

text \<open>
  Stand-ins for the library primitives and a handler with a five-byte file key, used
  only to evaluate the definitions on examples.
\<close>

definition fixture_crypto :: crypto where
  "fixture_crypto = \<lparr> md5_Sum = (\<lambda>x. take 16 (rev x @ replicate 16 0)),
       rc4_NewCipher = (\<lambda>k. if k = [] then None else Some (map (\<lambda>b. b XOR hd k))),
       aes_NewCipher = (\<lambda>k. if length k = 16 then Some (\<lambda>iv ct. ct) else None) \<rparr>"

definition fixture_handler :: "int \<Rightarrow> EncryptionHandler" where
  "fixture_handler v = \<lparr> FileID = [], EncryptKey = [1, 2, 3, 4, 5], V = v, R = (if v = 4 then 4 else 2) \<rparr>"

text \<open>Sub-lexers that read nothing, for examples that do not reach them.\<close>

definition fixture_sub :: sub_lexers where
  "fixture_sub = \<lparr> readName = (\<lambda>inp. (Inl EOF, inp)), readString = (\<lambda>inp. (Inl EOF, inp)),
       readDictionary = (\<lambda>inp. (Inl EOF, inp)), readArray = (\<lambda>inp. (Inl EOF, inp)),
       readNumberOrReference = (\<lambda>inp. (Inl EOF, inp)),
       readKeywordOrBoolean = (\<lambda>inp. (Inl EOF, inp)) \<rparr>"

text \<open>
  A \<open>String\<close> method that prints a name or a keyword as it is stored. Two classical
  sections whose \<open>/Prev\<close> entries point at each other: the newer one at offset 300, the
  older one at offset 100; both give an entry for object 1 and a \<open>/Root\<close>. A stream
  dictionary whose \<open>/W\<close> starts with 0, with two rows of data.
\<close>

definition fixture_String :: "Object \<Rightarrow> string" where
  "fixture_String obj = (case obj of NameObject n \<Rightarrow> n | KeywordObject k \<Rightarrow> k | _ \<Rightarrow> [])"

definition fixture_newer :: xref_section where
  "fixture_newer = StandardSection
     [(NumberObject 0, NumberObject 2,
       map ch ''0000000000 65535 f '' @ [0x0A] @ map ch ''0000000017 00000 n '' @ [0x0A])]
     (Inr (DictionaryObject [(''/Size'', NumberObject 2), (''/Root'', IndirectObject 1 0),
                             (''/Prev'', NumberObject 100)]))"

definition fixture_older :: xref_section where
  "fixture_older = StandardSection
     [(NumberObject 1, NumberObject 2,
       map ch ''0000000009 00000 n '' @ [0x0A] @ map ch ''0000000050 00000 n '' @ [0x0A])]
     (Inr (DictionaryObject [(''/Size'', NumberObject 3), (''/Root'', IndirectObject 2 0),
                             (''/Prev'', NumberObject 300)]))"

definition fixture_file :: "int64 \<Rightarrow> xref_section" where
  "fixture_file off = (if off = 300 then fixture_newer else if off = 100 then fixture_older
                       else NoSection)"

definition fixture_entry :: "int64 \<Rightarrow> int64 \<Rightarrow> bool \<Rightarrow> XRefEntry" where
  "fixture_entry off gen free = \<lparr> Offset = off, Generation = gen, Free = free,
       Compressed = False, StreamObj = 0, StreamIdx = 0 \<rparr>"

definition fixture_table :: XRefTable where
  "fixture_table = \<lparr> Entries = [0 \<mapsto> fixture_entry 0 65535 True, 1 \<mapsto> fixture_entry 17 0 False,
                                   2 \<mapsto> fixture_entry 50 0 False],
                      Trailer = [''/Size'' \<mapsto> NumberObject 2, ''/Root'' \<mapsto> IndirectObject 1 0,
                                 ''/Prev'' \<mapsto> NumberObject 100] \<rparr>"

definition fixture_stream_dict :: "(string \<times> Object) list" where
  "fixture_stream_dict =
     [(''/Type'', NameObject ''/XRef''), (''/Length'', NumberObject 12),
      (''/W'', ArrayObject [NumberObject 0, NumberObject 1, NumberObject 1]),
      (''/Size'', NumberObject 2), (''/Root'', IndirectObject 1 0)]"

definition fixture_table1 :: XRefTable where
  "fixture_table1 = \<lparr> Entries = [0 \<mapsto> fixture_entry 0 65535 True, 1 \<mapsto> fixture_entry 17 0 False],
                       Trailer = [''/Size'' \<mapsto> NumberObject 2, ''/Root'' \<mapsto> IndirectObject 1 0,
                                  ''/Prev'' \<mapsto> NumberObject 100] \<rparr>"

text \<open>
  An extractor in the middle of a line: the font has the default space width 250, the
  size is 10, the buffer holds \<open>Hi\<close>, the last string ended at \<open>x = 10\<close> and the next
  one starts at \<open>x = 11.5\<close>; one graphics state is saved on the stack.
\<close>

definition fixture_env :: extractor_env where
  "fixture_env = \<lparr> glyphToUnicode = [''/space'' \<mapsto> [0x20], ''/fi'' \<mapsto> [0x66, 0x69]],
                    recordImage = (\<lambda>name e. images e),
                    math_Sqrt = (\<lambda>x. x) \<rparr>"

definition fixture_font :: Font where
  "fixture_font = \<lparr> BaseFont = ''/Helvetica'', CMap = Some Map.empty, Encoding = Map.empty,
                     Widths = Map.empty, MissingW = 0, SpaceWidth = float64 250, IsCID = True \<rparr>"

definition fixture_extractor :: Extractor where
  "fixture_extractor =
     \<lparr> gState = \<lparr> CTM = IdentityMatrix \<rparr>,
       gStack = [\<lparr> CTM = Matrix (float64 2) 0 0 (float64 2) (float64 5) (float64 5) \<rparr>],
       textState = NewTextState \<lparr> Font := Some fixture_font, FontSize := float64 10,
                                  TM := Matrix 1 0 0 1 (float64 11.5) 0 \<rparr>,
       fonts = [''/F1'' \<mapsto> fixture_font],
       lastX = float64 10, lastY = 0,
       buffer = map ch ''Hi'',
       images = None, xobjects = None \<rparr>"

text \<open>
  The same line without a font and at size 3: the last string ended at \<open>x = 0\<close>, and
  the next one starts at the \<open>float64\<close> that \<open>3 * 0.2\<close> rounds to, which is
  \<open>0.6000000000000001\<close>.
\<close>

definition fixture_plain :: Extractor where
  "fixture_plain =
     fixture_extractor \<lparr> textState := NewTextState \<lparr> FontSize := float64 3,
                                   TM := Matrix 1 0 0 1 (float64 0.6000000000000001) 0 \<rparr>,
                         lastX := 0 \<rparr>"

text \<open>
  A document with two pages: the catalog (object 1), the root of the page tree (object 2)
  with an intermediate node (object 3, one page, object 4) and a page (object 5). The
  \<open>/Count\<close> of the intermediate node is a parameter.
\<close>

definition fixture_catalog :: "(string \<times> Object) list" where
  "fixture_catalog = [(''/Type'', NameObject ''/Catalog''), (''/Pages'', IndirectObject 2 0)]"

definition fixture_pages :: "(string \<times> Object) list" where
  "fixture_pages = [(''/Type'', NameObject ''/Pages''),
                    (''/Kids'', ArrayObject [IndirectObject 3 0, IndirectObject 5 0]),
                    (''/Count'', NumberObject 2)]"

definition fixture_section :: "real \<Rightarrow> (string \<times> Object) list" where
  "fixture_section count = [(''/Type'', NameObject ''/Pages''),
                            (''/Kids'', ArrayObject [IndirectObject 4 0]),
                            (''/Count'', NumberObject count)]"

definition fixture_page1 :: "(string \<times> Object) list" where
  "fixture_page1 = [(''/Type'', NameObject ''/Page'')]"

definition fixture_page2 :: "(string \<times> Object) list" where
  "fixture_page2 = [(''/Type'', NameObject ''/Page''), (''/Rotate'', NumberObject 90)]"

definition fixture_store :: "real \<Rightarrow> object_store" where
  "fixture_store count ref =
     (if ref = (1, 0) then Inr (DictionaryObject fixture_catalog)
      else if ref = (2, 0) then Inr (DictionaryObject fixture_pages)
      else if ref = (3, 0) then Inr (DictionaryObject (fixture_section count))
      else if ref = (4, 0) then Inr (DictionaryObject fixture_page1)
      else if ref = (5, 0) then Inr (DictionaryObject fixture_page2)
      else Inl XRefError)"

definition fixture_xref :: XRefTable where
  "fixture_xref = \<lparr> Entries = Map.empty, Trailer = [''/Root'' \<mapsto> IndirectObject 1 0] \<rparr>"

chapter \<open>Properties\<close>

section \<open>Encryption handler: the per-object key\<close>

lemma key_layout:
  "((((((k @ replicate 5 (0::byte))[length k := a])[length k + 1 := b])[length k + 2 := c])
      [length k + 3 := d])[length k + 4 := e]) = k @ [a, b, c, d, e]"
  by (induction k) (simp_all add: numeral_eq_Suc)

lemma le_bytes_3:
  "le_bytes 3 v = [byte_of_int v, byte_of_int (drop_bit 8 v), byte_of_int (drop_bit 16 v)]"
  by (simp add: le_bytes_def upt_rec drop_bit_eq_div numeral_3_eq_3)

lemma le_bytes_2: "le_bytes 2 v = [byte_of_int v, byte_of_int (drop_bit 8 v)]"
  by (simp add: le_bytes_def upt_rec drop_bit_eq_div numeral_2_eq_2)

lemma sAlT_bytes: "sAlT = [0x73, 0x41, 0x6C, 0x54]"
  by (simp add: sAlT_def)

text \<open>
  C4. Whenever the digest has the sixteen bytes of MD5, \<open>computeObjectKey\<close> returns the
  first \<open>min (len(fileKey) + 5) 16\<close> bytes of the digest of the file key, followed by the
  object number as three bytes little-endian, the generation as two bytes little-endian
  and, exactly when \<open>V \<ge> 4\<close>, the four ASCII bytes \<open>sAlT\<close>; the returned key has
  \<open>min (len(fileKey) + 5) 16\<close> bytes.
\<close>

theorem computeObjectKey_spec:
  assumes md5_len: "\<And>x. length (md5_Sum c x) = 16"
  shows "computeObjectKey c h objNum genNum =
           take (min (length (EncryptKey h) + 5) 16)
             (md5_Sum c (EncryptKey h @ le_bytes 3 objNum @ le_bytes 2 genNum
                          @ (if 4 \<le> V h then sAlT else [])))
         \<and> length (computeObjectKey c h objNum genNum) = min (length (EncryptKey h) + 5) 16"
proof -
  have n: "(if length (EncryptKey h) + 5 > 16 then 16 else length (EncryptKey h) + 5)
             = min (length (EncryptKey h) + 5) 16"
    by simp
  have eq: "computeObjectKey c h objNum genNum =
           take (min (length (EncryptKey h) + 5) 16)
             (md5_Sum c (EncryptKey h @ le_bytes 3 objNum @ le_bytes 2 genNum
                          @ (if 4 \<le> V h then sAlT else [])))"
    unfolding computeObjectKey_def Let_def key_layout n le_bytes_3 le_bytes_2 sAlT_bytes
    by simp
  show ?thesis
    unfolding eq by (simp add: md5_len)
qed

theorem computeObjectKey_spec_witness:
  "length (md5_Sum fixture_crypto [1, 2, 3]) = 16 \<and>
   computeObjectKey fixture_crypto (fixture_handler 4) 0x010203 0x0405
     = [0x54, 0x6C, 0x41, 0x73, 4, 5, 1, 2, 3, 5]"
proof -
  have len: "\<And>x. length (md5_Sum fixture_crypto x) = 16"
    by (simp add: fixture_crypto_def)
  show ?thesis
    using computeObjectKey_spec [of fixture_crypto "fixture_handler 4" "0x010203" "0x0405", OF len]
    by (simp add: fixture_crypto_def fixture_handler_def le_bytes_3 le_bytes_2 sAlT_bytes
          byte_of_int_def drop_bit_eq_div)
qed

section \<open>Encryption handler: decryption of empty and short inputs\<close>

text \<open>
  C5. \<open>Decrypt\<close> returns the empty input as it is, with no error, whatever the
  version; and under \<open>V = 4\<close> it returns an error for every input that has at least one
  and fewer than 16 bytes, the error of \<open>decryptAES\<close> for data too short to hold the
  initialisation vector.
\<close>

theorem Decrypt_empty_and_short:
  "Decrypt c h [] objNum genNum = Inr []
   \<and> (V h = 4 \<and> data \<noteq> [] \<and> length data < 16 \<longrightarrow>
        Decrypt c h data objNum genNum = Inl (AESTooShort (length data)))"
  by (simp add: Decrypt_def decryptAES_def)

theorem Decrypt_empty_and_short_witness:
  "Decrypt fixture_crypto (fixture_handler 4) [] 7 0 = Inr []
   \<and> Decrypt fixture_crypto (fixture_handler 4) [1, 2, 3] 7 0 = Inl (AESTooShort 3)"
  using Decrypt_empty_and_short [of fixture_crypto "fixture_handler 4" 7 0 "[1, 2, 3]"]
  by (simp add: fixture_handler_def)

text \<open>
  The test of the length in \<open>decryptAES\<close> is before any use of the key or the
  cipher, and covers the empty input as well, which \<open>Decrypt\<close> never passes on.
\<close>

lemma decryptAES_short:
  "length data < 16 \<Longrightarrow> decryptAES c h data objNum genNum = Inl (AESTooShort (length data))"
  by (simp add: decryptAES_def)

section \<open>Lexer: hex strings\<close>

lemma hexDigits_props:
  "d \<in> set hexDigits \<Longrightarrow> \<not> isWhitespace d \<and> d \<noteq> ch CHR ''>'' \<and> d \<noteq> ch CHR ''<''"
  by (auto simp: hexDigits_def ch_def isWhitespace_def)

lemma length_hexDigits: "length hexDigits = 16"
  by (simp add: hexDigits_def)

lemma high_nibble_less: "unat (drop_bit 4 (b :: byte)) < 16"
proof -
  have "unat (drop_bit 4 b) = unat b div 2 ^ 4"
    by (simp add: drop_bit_eq_div unat_div)
  moreover have "unat b < 2 ^ 8"
    using unsigned_less [of b] by simp
  ultimately show ?thesis by simp
qed

lemma low_nibble_less: "unat ((b :: byte) AND 0x0F) < 16"
proof -
  have "unat (b AND 0x0F) \<le> unat (0x0F :: byte)"
    by (rule word_and_le1 [THEN word_le_nat_alt [THEN iffD1]])
  then show ?thesis by simp
qed

lemma hex_pair_digits:
  "hexDigits ! unat (drop_bit 4 (b :: byte)) \<in> set hexDigits"
  "hexDigits ! unat (b AND 0x0F) \<in> set hexDigits"
  by (simp_all add: high_nibble_less low_nibble_less length_hexDigits)

lemma readHexString_loop_digit:
  "d \<in> set hexDigits \<Longrightarrow> readHexString_loop data (d # inp) = readHexString_loop (data @ [d]) inp"
  using hexDigits_props [of d] by simp

lemma readHexString_loop_hexEncode:
  "readHexString_loop data (hexEncode b @ ch CHR ''>'' # rest)
     = (Inr (HexStringObject (data @ hexEncode b)), rest)"
proof (induction b arbitrary: data)
  case Nil
  show ?case by (simp add: hexEncode_def)
next
  case (Cons x xs)
  have step: "hexEncode (x # xs) = hexDigits ! unat (drop_bit 4 x) # hexDigits ! unat (x AND 0x0F) # hexEncode xs"
    by (simp add: hexEncode_def)
  show ?case
    unfolding step
    by (simp add: readHexString_loop_digit hex_pair_digits Cons.IH del: readHexString_loop.simps)
qed

lemma length_hexEncode: "length (hexEncode b) = 2 * length b"
  by (induction b) (simp_all add: hexEncode_def)

lemma hexEncode_first: "hexEncode b @ ch CHR ''>'' # rest = y # ys \<Longrightarrow> y \<noteq> ch CHR ''<''"
proof (cases b)
  case Nil
  assume "hexEncode b @ ch CHR ''>'' # rest = y # ys"
  with Nil show ?thesis by (auto simp: hexEncode_def ch_def)
next
  case (Cons x xs)
  assume "hexEncode b @ ch CHR ''>'' # rest = y # ys"
  with Cons have "y = hexDigits ! unat (drop_bit 4 x)" by (simp add: hexEncode_def)
  then show ?thesis using hexDigits_props hex_pair_digits(1) by metis
qed

text \<open>
  C1, as the code has it. For every byte sequence \<open>b\<close>, \<open>ReadObject\<close> on
  \<open><\<close>, the hex digits of \<open>b\<close> and \<open>>\<close> returns the hex string whose payload is
  the digits themselves, one byte for each digit, not the bytes they denote: the result
  is \<open>HexStringObject b\<close> only for the empty \<open>b\<close>.
\<close>

theorem ReadObject_hex_not_decoded:
  "ReadObject sub (ch CHR ''<'' # hexEncode b @ ch CHR ''>'' # rest)
     = (Inr (HexStringObject (hexEncode b)), rest)
   \<and> ((HexStringObject (hexEncode b) = HexStringObject b) = (b = []))"
proof -
  obtain y ys where cons: "hexEncode b @ ch CHR ''>'' # rest = y # ys"
    by (cases "hexEncode b @ ch CHR ''>'' # rest") auto
  have y: "y \<noteq> ch CHR ''<''"
    using cons by (rule hexEncode_first)
  have skip: "skipWhitespace (ch CHR ''<'' # y # ys) = ch CHR ''<'' # y # ys"
    by (simp add: skipWhitespace_def isWhitespace_def ch_def)
  have tok: "ch CHR ''<'' \<noteq> ch CHR ''/''" "ch CHR ''<'' \<noteq> ch CHR ''(''"
    by (simp_all add: ch_def)
  have "ReadObject sub (ch CHR ''<'' # y # ys) = readHexString (ch CHR ''<'' # y # ys)"
    by (simp add: skip tok y)
  also have "\<dots> = readHexString_loop [] (hexEncode b @ ch CHR ''>'' # rest)"
    by (simp add: readHexString_def cons)
  also have "\<dots> = (Inr (HexStringObject (hexEncode b)), rest)"
    by (simp add: readHexString_loop_hexEncode)
  finally have a: "ReadObject sub (ch CHR ''<'' # hexEncode b @ ch CHR ''>'' # rest)
     = (Inr (HexStringObject (hexEncode b)), rest)"
    by (simp add: cons)
  have b: "(HexStringObject (hexEncode b) = HexStringObject b) = (b = [])"
  proof
    assume "HexStringObject (hexEncode b) = HexStringObject b"
    then have "length (hexEncode b) = length b" by simp
    then show "b = []" by (simp add: length_hexEncode)
  next
    assume "b = []"
    then show "HexStringObject (hexEncode b) = HexStringObject b" by (simp add: hexEncode_def)
  qed
  from a b show ?thesis by simp
qed


text \<open>
  The text \<open><41>\<close> is lexed to the two bytes \<open>0x34 0x31\<close> (the characters \<open>4\<close> and
  \<open>1\<close>), where the hex string of the byte \<open>0x41\<close> was expected.
\<close>

theorem ReadObject_hex_not_decoded_witness:
  "ReadObject fixture_sub (map ch ''<41>'') = (Inr (HexStringObject [0x34, 0x31]), [])
   \<and> HexStringObject [0x34, 0x31] \<noteq> HexStringObject [0x41]"
  using ReadObject_hex_not_decoded [of fixture_sub "[0x41]" "[]"]
  by (simp add: hexEncode_def hexDigits_def ch_def)

section \<open>Cross-reference tables: evaluation\<close>

lemma go_int_numeral [simp]: "go_int (numeral n) = numeral n" "go_int 0 = 0" "go_int 1 = 1"
  by (simp_all add: go_int_def)

lemma standard_lines_numeral:
  "standard_lines start i (numeral k) r E =
     (if length r < 20 then Inl EOF
      else standard_lines start (Suc i) (pred_numeral k) (drop 20 r)
             (if E (start + of_nat i) = None
              then E(start + of_nat i \<mapsto> xref_line_entry (take 20 r)) else E))"
  by (simp add: numeral_eq_Suc Let_def)

lemma xref_stream_rows_numeral:
  "xref_stream_rows w start j (numeral k) r E =
     (case xref_stream_row w (start + of_nat j) r E of
        Inl e \<Rightarrow> Inl e
      | Inr (r', E') \<Rightarrow> xref_stream_rows w start (Suc j) (pred_numeral k) r' E')"
  by (simp add: numeral_eq_Suc)

lemma readField_zero: "readField r 0 = (Inr 0, r)"
  by (simp add: readField_def)

section \<open>Cross-reference tables: entries are never overwritten\<close>

lemma xref_stream_row_other:
  "xref_stream_row w k r E = Inr (r', E') \<Longrightarrow> x \<noteq> k \<Longrightarrow> E' x = E x"
  by (auto simp: xref_stream_row_def split: prod.splits sum.splits if_splits)

lemma xref_stream_row_keeps:
  "xref_stream_row w k r E = Inr (r', E') \<Longrightarrow> E x = Some e \<Longrightarrow> E' x = Some e"
  by (auto simp: xref_stream_row_def split: prod.splits sum.splits if_splits)

lemma xref_stream_rows_keeps:
  "xref_stream_rows w start j n r E = Inr (r', E') \<Longrightarrow> E x = Some e \<Longrightarrow> E' x = Some e"
proof (induction n arbitrary: j r E)
  case 0
  then show ?case by simp
next
  case (Suc n)
  from Suc.prems(1) obtain r1 E1 where
    row: "xref_stream_row w (start + of_nat j) r E = Inr (r1, E1)" and
    rest: "xref_stream_rows w start (Suc j) n r1 E1 = Inr (r', E')"
    by (auto split: sum.splits)
  from row Suc.prems(2) have "E1 x = Some e" by (rule xref_stream_row_keeps)
  with rest show ?case by (rule Suc.IH)
qed

lemma standard_lines_keeps:
  "standard_lines start i n r E = Inr E' \<Longrightarrow> E x = Some e \<Longrightarrow> E' x = Some e"
proof (induction n arbitrary: i r E)
  case 0
  then show ?case by simp
next
  case (Suc n)
  let ?E1 = "if E (start + of_nat i) = None
             then E(start + of_nat i \<mapsto> xref_line_entry (take 20 r)) else E"
  from Suc.prems(1) have rest: "standard_lines start (Suc i) n (drop 20 r) ?E1 = Inr E'"
    by (cases "length r < 20") (simp_all add: Let_def)
  from Suc.prems(2) have "?E1 x = Some e" by auto
  with rest show ?case by (rule Suc.IH)
qed

lemma standard_subsections_keeps:
  "standard_subsections subs E = Inr E' \<Longrightarrow> E x = Some e \<Longrightarrow> E' x = Some e"
proof (induction subs arbitrary: E)
  case Nil
  then show ?case by simp
next
  case (Cons s subs)
  obtain obj obj2 r where s: "s = (obj, obj2, r)" by (cases s) auto
  from Cons.prems(1) s obtain startNum countNum E1 where
    lines: "standard_lines (go_int startNum) 0 (nat (sint (go_int countNum))) r E = Inr E1" and
    rest: "standard_subsections subs E1 = Inr E'"
    by (auto simp: Let_def split: Object.splits sum.splits)
  from lines Cons.prems(2) have "E1 x = Some e" by (rule standard_lines_keeps)
  with rest show ?case by (rule Cons.IH)
qed

lemma readStandardXRef_keeps:
  assumes "readStandardXRef t subs trailer = Inr (prev, tr, t')"
  shows "Trailer t' = Trailer t \<and> (Entries t x = Some e \<longrightarrow> Entries t' x = Some e)"
proof -
  from assms obtain E' where
    subs: "standard_subsections subs (Entries t) = Inr E'" and t': "t' = t\<lparr>Entries := E'\<rparr>"
    by (auto simp: readStandardXRef_def split: sum.splits Object.splits)
  from standard_subsections_keeps [OF subs] t' show ?thesis by simp
qed

lemma xref_stream_index_keeps:
  "xref_stream_index w index r E = Inr E' \<Longrightarrow> E x = Some e \<Longrightarrow> E' x = Some e"
proof (induction w index r E rule: xref_stream_index.induct)
  case (1 w r E)
  then show ?case by simp
next
  case (2 w start r E)
  then show ?case by simp
next
  case (3 w start count index r E)
  from "3.prems"(1) obtain r1 E1 where
    rows: "xref_stream_rows w start 0 (nat (sint count)) r E = Inr (r1, E1)" and
    rest: "xref_stream_index w index r1 E1 = Inr E'"
    by (auto split: sum.splits)
  from rows "3.prems"(2) have "E1 x = Some e" by (rule xref_stream_rows_keeps)
  with "3.IH" rows rest show ?case by simp
qed

lemma readXRefStream_keeps:
  assumes "readXRefStream String t obj body = Inr (prev, tr, t')"
  shows "Trailer t' = Trailer t \<and> (Entries t x = Some e \<longrightarrow> Entries t' x = Some e)"
proof -
  from assms obtain w index decoded E' where
    idx: "xref_stream_index w index decoded (Entries t) = Inr E'" and t': "t' = t\<lparr>Entries := E'\<rparr>"
    by (auto simp: readXRefStream_def split: sum.splits Object.splits option.splits list.splits if_splits)
  from xref_stream_index_keeps [OF idx] t' show ?thesis by simp
qed

lemma merge_trailer_keeps: "T k = Some v \<Longrightarrow> merge_trailer T tr k = Some v"
proof (induction tr arbitrary: T)
  case Nil
  then show ?case by simp
next
  case (Cons p tr)
  obtain k' v' where p: "p = (k', v')" by (cases p) auto
  from Cons.prems have "(if T k' = None then T(k' \<mapsto> v') else T) k = Some v" by auto
  then have "merge_trailer (if T k' = None then T(k' \<mapsto> v') else T) tr k = Some v"
    by (rule Cons.IH)
  then show ?case by (simp add: p)
qed

lemma merge_trailer_eq: "merge_trailer T tr k = (case T k of Some v \<Rightarrow> Some v | None \<Rightarrow> map_of tr k)"
  by (induction T tr rule: merge_trailer.induct) (auto split: option.splits)

lemma read_section_keeps:
  assumes "read_section String t s = Inr (prev, tr, t')"
  shows "Trailer t' = Trailer t \<and> (Entries t x = Some e \<longrightarrow> Entries t' x = Some e)"
  using assms readStandardXRef_keeps readXRefStream_keeps
  by (cases s) (simp_all add: read_section_def)

lemma ParseXRef_loop_unfold:
  "ParseXRef_loop String file visited nextOffset table =
     (if nextOffset = 0 \<or> nextOffset \<in> set visited then Some (visited, Inr table)
      else case read_section String table (file nextOffset) of
           Inl e \<Rightarrow> Some (visited @ [nextOffset], Inl e)
         | Inr (prevOffset, tr, table') \<Rightarrow>
             ParseXRef_loop String file (visited @ [nextOffset]) prevOffset
               (table'\<lparr>Trailer := merge_trailer (Trailer table') tr\<rparr>))"
  by (subst ParseXRef_loop.simps) simp

lemma unvisited_decreases:
  "x \<notin> set visited \<Longrightarrow> card (UNIV - set (visited @ [x])) < card (UNIV - set (visited :: int64 list))"
  by (rule psubset_card_mono) auto

lemma ParseXRef_loop_keeps:
  "ParseXRef_loop String file visited nextOffset table = Some (vis, Inr table') \<Longrightarrow>
   (Entries table x = Some e \<longrightarrow> Entries table' x = Some e)
   \<and> (Trailer table k = Some v \<longrightarrow> Trailer table' k = Some v)"
proof (induction "card (UNIV - set visited)" arbitrary: visited nextOffset table rule: less_induct)
  case less
  show ?case
  proof (cases "nextOffset = 0 \<or> nextOffset \<in> set visited")
    case True
    then show ?thesis
      using less.prems by (subst (asm) ParseXRef_loop_unfold) auto
  next
    case False
    then have new: "nextOffset \<notin> set visited" by auto
    show ?thesis
    proof (cases "read_section String table (file nextOffset)")
      case (Inl e)
      then show ?thesis
        using False less.prems by (subst (asm) ParseXRef_loop_unfold) auto
    next
      case (Inr res)
      obtain prevOffset tr t1 where res: "res = (prevOffset, tr, t1)"
        by (cases res) auto
      let ?t2 = "t1\<lparr>Trailer := merge_trailer (Trailer t1) tr\<rparr>"
      from less.prems False Inr res
      have rec: "ParseXRef_loop String file (visited @ [nextOffset]) prevOffset ?t2 = Some (vis, Inr table')"
        by (subst (asm) ParseXRef_loop_unfold) auto
      from read_section_keeps [of String table "file nextOffset" prevOffset tr t1 x e] Inr res
      have sec: "Trailer t1 = Trailer table" "Entries table x = Some e \<longrightarrow> Entries t1 x = Some e"
        by auto
      have step: "(Entries table x = Some e \<longrightarrow> Entries ?t2 x = Some e)
                  \<and> (Trailer table k = Some v \<longrightarrow> Trailer ?t2 k = Some v)"
        using sec by (simp add: merge_trailer_keeps)
      from less.hyps [OF unvisited_decreases [OF new] rec] step show ?thesis by blast
    qed
  qed
qed

text \<open>
  C6. Wherever the walk stands (the sections visited so far, the next offset and the
  table built so far), if it ends with a table, then every entry and every trailer key
  that the table already has is in the final table with the same value. The same holds
  inside a section, from any line of a classical subsection and from any row of a stream
  on: an entry that is present is still there, unchanged, when the loop ends.
\<close>

theorem ParseXRef_first_wins:
  "(ParseXRef_loop String file visited nextOffset table = Some (visited', Inr table') \<longrightarrow>
      (Entries table x = Some e \<longrightarrow> Entries table' x = Some e)
      \<and> (Trailer table k = Some v \<longrightarrow> Trailer table' k = Some v))
   \<and> (standard_lines start i n r E = Inr E' \<and> E x = Some e \<longrightarrow> E' x = Some e)
   \<and> (xref_stream_rows w start' j m rs Es = Inr (rs', Es') \<and> Es x = Some e \<longrightarrow> Es' x = Some e)"
  using ParseXRef_loop_keeps [of String "file" visited nextOffset table visited' table' x e k v]
    standard_lines_keeps [of start i n r E E' x e]
    xref_stream_rows_keeps [of w start' j m rs Es rs' Es' x e]
  by blast

section \<open>Cross-reference tables: the walk returns\<close>

lemma ParseXRef_loop_returns:
  "distinct visited \<Longrightarrow> 0 \<notin> set visited \<Longrightarrow>
   \<exists>vis r. ParseXRef_loop String file visited nextOffset table = Some (vis, r)
             \<and> distinct vis \<and> 0 \<notin> set vis"
proof (induction "card (UNIV - set visited)" arbitrary: visited nextOffset table rule: less_induct)
  case less
  show ?case
  proof (cases "nextOffset = 0 \<or> nextOffset \<in> set visited")
    case True
    then show ?thesis
      using less.prems by (subst ParseXRef_loop_unfold) auto
  next
    case False
    then have new: "nextOffset \<notin> set visited" and nz: "nextOffset \<noteq> 0" by auto
    have d: "distinct (visited @ [nextOffset])" "0 \<notin> set (visited @ [nextOffset])"
      using less.prems new nz by auto
    show ?thesis
    proof (cases "read_section String table (file nextOffset)")
      case (Inl e)
      then show ?thesis
        using False d by (subst ParseXRef_loop_unfold) auto
    next
      case (Inr res)
      obtain prevOffset tr table' where res: "res = (prevOffset, tr, table')"
        by (cases res) auto
      from less.hyps [OF unvisited_decreases [OF new] d]
      obtain vis r where
        "ParseXRef_loop String file (visited @ [nextOffset]) prevOffset
           (table'\<lparr>Trailer := merge_trailer (Trailer table') tr\<rparr>) = Some (vis, r)"
        "distinct vis" "0 \<notin> set vis"
        by blast
      then show ?thesis
        using False Inr res by (subst ParseXRef_loop_unfold) auto
    qed
  qed
qed

text \<open>
  C7. \<open>ParseXRef\<close> returns on every file and every start offset: the loop over the
  \<open>/Prev\<close> offsets returns, with a list of visited offsets that holds no offset twice
  and never 0. A section is read once for every offset of that list, so a chain of
  \<open>/Prev\<close> entries that runs in a circle is left when it comes back to an offset it has
  been at.
\<close>

theorem ParseXRef_terminates:
  "(\<exists>res. ParseXRef String file startxref = Some res)
   \<and> (\<exists>vis r. ParseXRef_loop String file [] nextOffset NewXRefTable = Some (vis, r)
                 \<and> distinct vis \<and> 0 \<notin> set vis)"
proof -
  have loop: "\<exists>vis r. ParseXRef_loop String file [] off NewXRefTable = Some (vis, r)
                 \<and> distinct vis \<and> 0 \<notin> set vis" for off
    using ParseXRef_loop_returns [of "[]" String "file" off NewXRefTable] by simp
  have "\<exists>res. ParseXRef String file startxref = Some res"
  proof (cases startxref)
    case (Inl err)
    then show ?thesis by (simp add: ParseXRef_def)
  next
    case (Inr off)
    from loop [of off] obtain vis r where
      "ParseXRef_loop String file [] off NewXRefTable = Some (vis, r)" by blast
    with Inr show ?thesis by (cases r) (simp_all add: ParseXRef_def)
  qed
  with loop [of nextOffset] show ?thesis by blast
qed

section \<open>Cross-reference streams: a type field of width 0\<close>

lemma xref_stream_row_w0_zero:
  assumes "xref_stream_row (0, w1, w2) k r E = Inr (r', E')" and "E k = None"
  shows "\<exists>f2 f3 r1. readField r w1 = (Inr f2, r1) \<and> readField r1 w2 = (Inr f3, r')
           \<and> E' = E(k \<mapsto> \<lparr> Offset = 0, Generation = f3, Free = True, Compressed = False,
                                StreamObj = 0, StreamIdx = 0 \<rparr>)"
  using assms
  by (auto simp: xref_stream_row_def readField_zero split: prod.splits sum.splits)

lemma xref_stream_rows_w0_zero:
  assumes "xref_stream_rows (0, w1, w2) start j n r E = Inr (r', E')"
    and "i < n" and "E (start + of_nat (j + i)) = None"
  shows "\<exists>e. E' (start + of_nat (j + i)) = Some e \<and> Free e \<and> \<not> Compressed e \<and> Offset e = 0"
  using assms
proof (induction n arbitrary: j r E i)
  case 0
  then show ?case by simp
next
  case (Suc n)
  from Suc.prems(1) obtain r1 E1 where
    row: "xref_stream_row (0, w1, w2) (start + of_nat j) r E = Inr (r1, E1)" and
    rest: "xref_stream_rows (0, w1, w2) start (Suc j) n r1 E1 = Inr (r', E')"
    by (auto split: sum.splits)
  show ?case
  proof (cases "start + of_nat (j + i) = start + of_nat j")
    case True
    with Suc.prems(3) have "E (start + of_nat j) = None" by simp
    with row obtain e where "E1 (start + of_nat j) = Some e" "Free e" "\<not> Compressed e" "Offset e = 0"
      using xref_stream_row_w0_zero by fastforce
    with rest True show ?thesis
      using xref_stream_rows_keeps by fastforce
  next
    case False
    have "i \<noteq> 0"
    proof
      assume "i = 0"
      with False show False by simp
    qed
    then obtain i' where i': "i = Suc i'" by (cases i) auto
    from row False Suc.prems(3) have "E1 (start + of_nat (j + i)) = None"
      using xref_stream_row_other by fastforce
    with i' have none: "E1 (start + of_nat (Suc j + i')) = None" by simp
    from Suc.prems(2) i' have lt: "i' < n" by simp
    from Suc.IH [OF rest lt none] i' show ?thesis by simp
  qed
qed

text \<open>
  C3, as the code has it. When \<open>w0 = 0\<close>, \<open>readField\<close> gives 0 for the type field, and
  a row whose id has no entry yet is recorded as a free entry with generation \<open>f3\<close>;
  \<open>f2\<close> is read and not recorded. So after the rows of a subsection, every id of the
  subsection that had no entry before has a free entry.
\<close>

theorem xref_stream_w0_zero_is_free:
  "(xref_stream_row (0, w1, w2) k r E = Inr (r', E') \<and> E k = None \<longrightarrow>
      (\<exists>f2 f3 r1. readField r w1 = (Inr f2, r1) \<and> readField r1 w2 = (Inr f3, r')
          \<and> E' = E(k \<mapsto> \<lparr> Offset = 0, Generation = f3, Free = True, Compressed = False,
                                 StreamObj = 0, StreamIdx = 0 \<rparr>)))
   \<and> (xref_stream_rows (0, w1, w2) start j n rs Es = Inr (rs', Es') \<and> i < n
        \<and> Es (start + of_nat (j + i)) = None \<longrightarrow>
      (\<exists>e. Es' (start + of_nat (j + i)) = Some e \<and> Free e \<and> \<not> Compressed e \<and> Offset e = 0))"
  using xref_stream_row_w0_zero [of w1 w2 k r E r' E']
    xref_stream_rows_w0_zero [of w1 w2 start j n rs Es rs' Es' i]
  by blast

section \<open>Cross-reference tables: examples\<close>

lemmas xref_eval =
  read_section_def fixture_newer_def fixture_older_def fixture_file_def readStandardXRef_def
  standard_lines_numeral trailer_prev_def NewXRefTable_def xref_line_entry_def fixture_entry_def
  ParseInt_def ch_def isDigit_def fixture_table_def fixture_table1_def

lemma fixture_walk_older:
  "ParseXRef_loop fixture_String fixture_file [300] 100 fixture_table1
     = Some ([300, 100], Inr fixture_table)"
  apply (subst ParseXRef_loop_unfold)
  apply (simp add: xref_eval)
  apply (subst ParseXRef_loop_unfold)
  apply (simp add: xref_eval)
  done

lemma fixture_walk:
  "ParseXRef_loop fixture_String fixture_file [] 300 NewXRefTable
     = Some ([300, 100], Inr fixture_table)"
  apply (subst ParseXRef_loop_unfold)
  apply (simp add: xref_eval)
  apply (subst ParseXRef_loop_unfold)
  apply (simp add: xref_eval)
  apply (subst ParseXRef_loop_unfold)
  apply (simp add: xref_eval)
  done

text \<open>
  The walk over the two sections that point at each other returns, after reading each of
  them once.
\<close>

theorem ParseXRef_terminates_witness:
  "ParseXRef fixture_String fixture_file (Inr 300) = Some (Inr fixture_table)
   \<and> ParseXRef_loop fixture_String fixture_file [] 300 NewXRefTable
       = Some ([300, 100], Inr fixture_table)
   \<and> distinct [300, 100 :: int64]"
  using ParseXRef_terminates [of fixture_String fixture_file "Inr 300" 300] fixture_walk
  by (simp add: ParseXRef_def fixture_table_def)

text \<open>
  The older section at offset 100 also gives an entry for object 1 (offset 9) and a
  \<open>/Root\<close>; the table keeps what the newer section recorded.
\<close>

theorem ParseXRef_first_wins_witness:
  "ParseXRef_loop fixture_String fixture_file [300] 100 fixture_table1
       = Some ([300, 100], Inr fixture_table)
   \<and> Entries fixture_table1 1 = Some (fixture_entry 17 0 False)
   \<and> Entries fixture_table 1 = Some (fixture_entry 17 0 False)
   \<and> Trailer fixture_table1 ''/Root'' = Some (IndirectObject 1 0)
   \<and> Trailer fixture_table ''/Root'' = Some (IndirectObject 1 0)
   \<and> standard_lines 1 0 2
         (map ch ''0000000009 00000 n '' @ [0x0A] @ map ch ''0000000050 00000 n '' @ [0x0A])
         [1 \<mapsto> fixture_entry 17 0 False]
       = Inr [1 \<mapsto> fixture_entry 17 0 False, 2 \<mapsto> fixture_entry 50 0 False]
   \<and> xref_stream_rows (1, 1, 1) 1 0 2 [1, 9, 0, 1, 50, 0] [1 \<mapsto> fixture_entry 17 0 False]
       = Inr ([], [1 \<mapsto> fixture_entry 17 0 False, 2 \<mapsto> fixture_entry 50 0 False])"
  using ParseXRef_first_wins [of fixture_String fixture_file "[300]" 100 fixture_table1
      "[300, 100]" fixture_table 1 "fixture_entry 17 0 False" "''/Root''" "IndirectObject 1 0"
      1 0 2 "map ch ''0000000009 00000 n '' @ [0x0A] @ map ch ''0000000050 00000 n '' @ [0x0A]"
      "[1 \<mapsto> fixture_entry 17 0 False]"
      "[1 \<mapsto> fixture_entry 17 0 False, 2 \<mapsto> fixture_entry 50 0 False]"
      "(1, 1, 1)" 1 0 2 "[1, 9, 0, 1, 50, 0]" "[1 \<mapsto> fixture_entry 17 0 False]" "[]"
      "[1 \<mapsto> fixture_entry 17 0 False, 2 \<mapsto> fixture_entry 50 0 False]"]
    fixture_walk_older
  by (simp add: xref_eval xref_stream_rows_numeral xref_stream_row_def readField_def word_sless_alt)

theorem xref_stream_w0_zero_is_free_witness:
  "xref_stream_row (0, 1, 1) 5 [0x10, 0x07] Map.empty
     = Inr ([], [5 \<mapsto> fixture_entry 0 7 True])
   \<and> xref_stream_rows (0, 1, 1) 0 0 2 [0x10, 0x00, 0x20, 0x01] Map.empty
     = Inr ([], [0 \<mapsto> fixture_entry 0 0 True, 1 \<mapsto> fixture_entry 0 1 True])"
  using xref_stream_w0_zero_is_free [of 1 1 5 "[0x10, 0x07]" Map.empty "[]"
      "[5 \<mapsto> fixture_entry 0 7 True]" 0 0 2 "[0x10, 0x00, 0x20, 0x01]" Map.empty "[]"
      "[0 \<mapsto> fixture_entry 0 0 True, 1 \<mapsto> fixture_entry 0 1 True]" 1]
  by (simp add: xref_stream_rows_numeral xref_stream_row_def readField_def word_sless_alt
      fixture_entry_def)

text \<open>
  A stream with \<open>/W [0 1 1]\<close> and the rows \<open>(f2, f3) = (0x10, 0)\<close> and \<open>(0x20, 1)\<close>:
  both objects are recorded as free, with offset 0, and not as in use at the offsets
  \<open>0x10\<close> and \<open>0x20\<close>.
\<close>

theorem xref_stream_w0_zero_counterexample:
  "readXRefStream fixture_String NewXRefTable (Inr (DictionaryObject fixture_stream_dict))
       (Inr [0x10, 0x00, 0x20, 0x01])
     = Inr (0, fixture_stream_dict,
            \<lparr> Entries = [0 \<mapsto> fixture_entry 0 0 True, 1 \<mapsto> fixture_entry 0 1 True],
              Trailer = Map.empty \<rparr>)
   \<and> fixture_entry 0 0 True \<noteq> fixture_entry 0x10 0 False
   \<and> fixture_entry 0 1 True \<noteq> fixture_entry 0x20 1 False"
  by (simp add: readXRefStream_def fixture_String_def fixture_stream_dict_def stream_index_def
      NewXRefTable_def xref_stream_rows_numeral xref_stream_row_def readField_def word_sless_alt
      trailer_prev_def fixture_entry_def)

section \<open>CMap parser: sequential ranges\<close>

lemma intToHex_numeral:
  "intToHex val (numeral k) = intToHex (signed_drop_bit 8 val) (pred_numeral k) @ [ucast (val AND 0xFF)]"
  by (simp add: numeral_eq_Suc)

lemma intToHex_1: "intToHex val 1 = [ucast (val AND 0xFF)]"
  using intToHex.simps(2) [of val 0] by simp




lemma length_intToHex: "length (intToHex val byteLen) = byteLen"
  by (induction byteLen arbitrary: val) simp_all

text \<open>
  Two codes written with the same byte length give the same key only if they agree on
  the low \<open>8 * byteLen\<close> bits. Hence the keys of a range are pairwise different as
  long as the range is shorter than \<open>256 ^ byteLen\<close>.
\<close>

lemma low_byte_bits:
  fixes v v' :: int64
  assumes "(ucast (v AND 0xFF) :: byte) = ucast (v' AND 0xFF)" and "k < 8"
  shows "bit v k = bit v' k"
proof -
  have "bit (ucast (v AND 0xFF) :: byte) k = bit (ucast (v' AND 0xFF) :: byte) k"
    using assms(1) by simp
  moreover have "(0xFF :: int64) = mask 8" by (simp add: mask_eq_exp_minus_1)
  ultimately show ?thesis
    using assms(2) by (simp add: bit_simps)
qed

lemma high_bits:
  fixes v :: int64
  assumes "8 \<le> k" and "k < 64"
  shows "bit v k = bit (signed_drop_bit 8 v) (k - 8)"
  using assms by (auto simp: bit_simps)

lemma intToHex_take_bit:
  "byteLen \<le> 8 \<Longrightarrow> intToHex v byteLen = intToHex v' byteLen
     \<Longrightarrow> take_bit (8 * byteLen) v = take_bit (8 * byteLen) v'"
proof (induction byteLen arbitrary: v v')
  case 0
  show ?case by simp
next
  case (Suc n)
  have len: "length (intToHex (signed_drop_bit 8 v) n) = length (intToHex (signed_drop_bit 8 v') n)"
    by (simp add: length_intToHex)
  from Suc.prems(2) len
  have parts: "intToHex (signed_drop_bit 8 v) n = intToHex (signed_drop_bit 8 v') n"
    "(ucast (v AND 0xFF) :: byte) = ucast (v' AND 0xFF)"
    by simp_all
  from Suc.prems(1) have "n \<le> 8" by simp
  from Suc.IH [OF this parts(1)]
  have ih: "take_bit (8 * n) (signed_drop_bit 8 v) = take_bit (8 * n) (signed_drop_bit 8 v')" .
  show ?case
  proof (rule bit_word_eqI)
    fix k
    assume "k < LENGTH(64)"
    show "bit (take_bit (8 * Suc n) v) k = bit (take_bit (8 * Suc n) v') k"
    proof (cases "k < 8")
      case True
      with low_byte_bits [OF parts(2) True] show ?thesis by (simp add: bit_take_bit_iff)
    next
      case False
      show ?thesis
      proof (cases "k < 8 * Suc n")
        case outside: False
        then show ?thesis by (simp add: bit_take_bit_iff)
      next
        case inside: True
        with Suc.prems(1) have k64: "k < 64" by simp
        from False have k8: "8 \<le> k" by simp
        have "bit (take_bit (8 * n) (signed_drop_bit 8 v)) (k - 8)
              = bit (take_bit (8 * n) (signed_drop_bit 8 v')) (k - 8)"
          using ih by simp
        moreover have "k - 8 < 8 * n" using inside k8 by simp
        ultimately have "bit (signed_drop_bit 8 v) (k - 8) = bit (signed_drop_bit 8 v') (k - 8)"
          by (simp add: bit_take_bit_iff)
        then have "bit v k = bit v' k"
          using high_bits [OF k8 k64, of v] high_bits [OF k8 k64, of v'] by simp
        then show ?thesis by (simp add: bit_take_bit_iff)
      qed
    qed
  qed
qed

lemma uint_of_nonneg:
  fixes w :: int64
  assumes "0 \<le> sint w"
  shows "uint w = sint w"
proof -
  have "uint w = take_bit 64 (sint w)" by (simp add: uint_sint)
  also have "\<dots> = sint w"
    by (rule take_bit_int_eq_self) (use assms sint_lt [of w] in simp_all)
  finally show ?thesis .
qed

lemma take_bit_uint_add:
  fixes a b :: int64
  assumes "n \<le> 64"
  shows "take_bit n (uint (a + b)) = take_bit n (uint a + uint b)"
proof -
  have "uint (a + b) = take_bit 64 (uint a + uint b)"
    by (simp add: uint_word_ariths take_bit_eq_mod)
  then have "take_bit n (uint (a + b)) = take_bit (min n 64) (uint a + uint b)"
    by simp
  with assms show ?thesis by (simp add: min_def)
qed

lemma bfrange_keys_distinct:
  fixes i j startCode :: int64
  assumes len: "byteLen \<le> 8" and i: "0 \<le>s i" and ij: "i <s j"
    and j: "sint j < 2 ^ (8 * byteLen)"
  shows "intToHex (startCode + j) byteLen \<noteq> intToHex (startCode + i) byteLen"
proof
  let ?n = "8 * byteLen"
  assume "intToHex (startCode + j) byteLen = intToHex (startCode + i) byteLen"
  with len have "take_bit ?n (startCode + j) = take_bit ?n (startCode + i)"
    by (rule intToHex_take_bit)
  then have "uint (take_bit ?n (startCode + j)) = uint (take_bit ?n (startCode + i))"
    by simp
  then have "take_bit ?n (uint (startCode + j)) = take_bit ?n (uint (startCode + i))"
    by (simp only: unsigned_take_bit_eq)
  moreover from len have n64: "?n \<le> 64" by simp
  ultimately have "take_bit ?n (uint startCode + uint j) = take_bit ?n (uint startCode + uint i)"
    by (simp only: take_bit_uint_add)
  then have "(uint startCode + uint j) mod 2 ^ ?n = (uint startCode + uint i) mod 2 ^ ?n"
    by (simp only: take_bit_eq_mod)
  then have "(2 :: int) ^ ?n dvd (uint startCode + uint j) - (uint startCode + uint i)"
    by (simp only: mod_eq_dvd_iff)
  then have dvd: "(2 :: int) ^ ?n dvd uint j - uint i" by simp
  have si: "0 \<le> sint i" using i by (simp add: word_sle_eq)
  have sij: "sint i < sint j" using ij by (simp add: word_sless_alt)
  have "uint i = sint i" using si by (rule uint_of_nonneg)
  moreover have "uint j = sint j" using si sij by (intro uint_of_nonneg) simp
  ultimately have "(2 :: int) ^ ?n dvd sint j - sint i" using dvd by simp
  moreover have "0 < sint j - sint i" using sij by simp
  ultimately have "(2 :: int) ^ ?n \<le> sint j - sint i" by (rule zdvd_imp_le)
  with j si show False by simp
qed

text \<open>
  When the range \<open>endCode - startCode\<close> is the largest 64-bit integer, the test
  \<open>i <= endCode - startCode\<close> holds of every \<open>i\<close>, and the loop does not return.
\<close>

lemma sint_le_max:
  fixes i d :: int64
  assumes "sint d = 2 ^ 63 - 1"
  shows "i \<le>s d"
  using assms sint_lt [of i] by (simp add: word_sle_eq)

lemma bfrange_sequential_bound:
  assumes "bfrange_sequential m startCode endCode dstCode srcLen dstLen i = Some m'"
  shows "sint (endCode - startCode) \<noteq> 2 ^ 63 - 1"
proof (rule bfrange_sequential.raw_induct
    [where P = "\<lambda>m startCode endCode dstCode srcLen dstLen i m'.
                  sint (endCode - startCode) \<noteq> 2 ^ 63 - 1", rotated, OF assms], goal_cases)
  case (1 loop m startCode endCode dstCode srcLen dstLen i m')
  show ?case
  proof
    assume top: "sint (endCode - startCode) = 2 ^ 63 - 1"
    then have "i \<le>s endCode - startCode" by (rule sint_le_max)
    with 1(2) have "loop (m(intToHex (startCode + i) srcLen \<mapsto>
                        decodeUTF16BE (intToHex (dstCode + i) dstLen)))
                     startCode endCode dstCode srcLen dstLen (i + 1) = Some m'"
      by (simp add: Let_def)
    from 1(1) [OF this] top show False by simp
  qed
qed

lemma parseBFRange_entry_diverges:
  assumes "sint (hexToInt endHex - hexToInt startHex) = 2 ^ 63 - 1"
  shows "parseBFRange_entry m (HexStringObject startHex) (HexStringObject endHex)
           (HexStringObject dstHex) = None"
proof (cases "parseBFRange_entry m (HexStringObject startHex) (HexStringObject endHex)
           (HexStringObject dstHex)")
  case None
  then show ?thesis .
next
  case (Some m')
  then have "bfrange_sequential m (hexToInt startHex) (hexToInt endHex) (hexToInt dstHex)
               (length startHex) (length dstHex) 0 = Some m'"
    by (simp add: parseBFRange_entry_def)
  from bfrange_sequential_bound [OF this] assms show ?thesis by simp
qed




lemma fixture_bfrange_values:
  "decodeUTF16BE (intToHex 0x3030343130303432 8)
     = [0xE3, 0x80, 0xB0, 0xE3, 0x90, 0xB1, 0xE3, 0x80, 0xB0, 0xE3, 0x90, 0xB2]"
  "decodeUTF16BE (intToHex 0x3030343130303433 8)
     = [0xE3, 0x80, 0xB0, 0xE3, 0x90, 0xB1, 0xE3, 0x80, 0xB0, 0xE3, 0x90, 0xB3]"
  "decodeUTF16BE (intToHex 0x3030343130303432 2) = [0xE3, 0x90, 0xB2]"
  "decodeUTF16BE (intToHex 0x3030343130303433 2) = [0xE3, 0x90, 0xB3]"
  "intToHex 0x3230 2 = [0x32, 0x30]"
  "intToHex 0x3231 2 = [0x32, 0x31]"
  by (simp_all add: intToHex_numeral intToHex_1 decodeUTF16BE_def utf8_rune_def)





section \<open>Floating point: evaluation\<close>

lemma bitlen_0: "bitlen 0 = 0"
  by (subst bitlen.simps) simp

lemma bitlen_1: "bitlen 1 = 1"
  by (subst bitlen.simps) (simp add: bitlen_0)

lemma bitlen_numeral: "bitlen (numeral k) = 1 + bitlen (numeral k div 2)"
  by (subst bitlen.simps) simp

lemmas float64_eval = float64_def float64_round_def ilog2_def round_half_even_def pow2_def Let_def
  bitlen_0 bitlen_1 bitlen_numeral
  plus_float64_def minus_float64_def times_float64_def divide_float64_def uminus_float64_def
  abs_float64_def less_float64_def less_eq_float64_def zero_float64_def one_float64_def

text \<open>
  The constants \<open>0.2\<close> and \<open>0.5\<close> of the program, and what the rounding does to
  products and sums: \<open>3 * 0.2\<close> is \<open>0.6000000000000001\<close> and not the \<open>float64\<close> of
  \<open>0.6\<close>, \<open>0.1 + 0.2\<close> is \<open>0.30000000000000004\<close>, and \<open>1\<close> is the \<open>float64\<close> of 1.
\<close>

lemma float64_constants:
  "float64 0.2 = Finite False 7205759403792794 (- 55)"
  "float64 0.5 = Finite False 4503599627370496 (- 53)"
  "float64 1 = 1"
  "float64 0 = 0"
  by (simp_all add: float64_eval)

lemma float64_rounding:
  "float64 3 * float64 0.2 = float64 0.6000000000000001"
  "float64 3 * float64 0.2 \<noteq> float64 0.6"
  "float64 0.1 + float64 0.2 = float64 0.30000000000000004"
  "float64 1 / float64 3 = Finite False 6004799503160661 (- 54)"
  "float64 (2 ^ 53 + 1) = float64 (2 ^ 53)"
  by (simp_all add: float64_eval)

lemma float64_special:
  "float64 (2 ^ 1024) = Infinity False"
  "float64 1 / 0 = Infinity False"
  "(0 :: float64) / 0 = NaN"
  "Infinity False - Infinity False = NaN"
  "\<not> NaN < (0 :: float64) \<and> \<not> (0 :: float64) < NaN \<and> \<not> NaN \<le> (NaN :: float64)"
  "- (0 :: float64) + 0 = 0"
  "\<not> - (0 :: float64) < 0"
  by (simp_all add: float64_eval)

section \<open>Text extractor: the word gap\<close>

text \<open>
  What \<open>handleText\<close> leaves in the buffer, in both revisions: the break, then the
  decoded string.
\<close>

lemma handleText_buffer:
  assumes "obj = StringObject rawBytes \<or> obj = HexStringObject rawBytes"
  shows "buffer (handleText env obj e) =
           text_break (textState e) (m4 (Mult (TM (textState e)) (CTM (gState e))))
             (m5 (Mult (TM (textState e)) (CTM (gState e)))) (lastX e) (lastY e) (buffer e)
           @ text_decode env (textState e) rawBytes"
    and "buffer (handleText_old env obj e) =
           text_break (textState e) (m4 (Mult (TM (textState e)) (CTM (gState e))))
             (m5 (Mult (TM (textState e)) (CTM (gState e)))) (lastX e) (lastY e) (buffer e)
           @ text_decode_old env (textState e) rawBytes"
  using assms by (auto simp add: handleText_def handleText_old_def Let_def)

text \<open>
  C2, as the code has it. The threshold is \<open>space_width_user * 0.5\<close> when that width
  is greater than zero and \<open>size * 0.2\<close> otherwise (no font, or a width that is not
  greater than zero): the second replaces the first, it is not the larger of the two. All
  of it is \<open>float64\<close> arithmetic. A string or hex string shown after a non-empty buffer
  that ends in neither a line feed nor a space gets one space in front when the test of
  a changed line, \<open>|y - last_y| > size * 0.5\<close>, fails and \<open>x - last_x\<close> is greater than
  the threshold; nothing else is put between the buffer and the decoded string but the
  line feed of a changed line. This holds of both revisions of \<open>handleText\<close>.
\<close>

theorem handleText_space_rule:
  assumes "obj = StringObject rawBytes \<or> obj = HexStringObject rawBytes"
  shows "(let ts = textState e;
              x = m4 (Mult (TM ts) (CTM (gState e)));
              y = m5 (Mult (TM ts) (CTM (gState e)));
              space_width_user =
                (case Font ts of
                   None \<Rightarrow> 0
                 | Some f \<Rightarrow> (SpaceWidth f / float64 1000) * FontSize ts * (Scale ts / float64 100));
              threshold = (if space_width_user > 0 then space_width_user * float64 0.5
                           else FontSize ts * float64 0.2);
              sep = (if \<bar>y - lastY e\<bar> > FontSize ts * float64 0.5
                       then (if buffer e = [] then [] else [0x0A])
                     else if x - lastX e > threshold \<and> buffer e \<noteq> []
                             \<and> last (buffer e) \<noteq> 0x0A \<and> last (buffer e) \<noteq> 0x20
                       then [0x20] else [])
          in buffer (handleText env obj e) = buffer e @ sep @ text_decode env ts rawBytes
           \<and> buffer (handleText_old env obj e) = buffer e @ sep @ text_decode_old env ts rawBytes)"
  unfolding handleText_buffer [OF assms]
  by (simp add: text_break_def text_threshold_def spaceWidth_def Let_def)

text \<open>
  The two example states, field by field, and the arithmetic on their numbers. In the
  second one the gap is the \<open>float64\<close> \<open>0.6000000000000001\<close>, which is greater than
  the exact \<open>3 * 0.2\<close> and not greater than the threshold the program computes.
\<close>

lemma fixture_Mult:
  "Mult (TM (textState fixture_extractor)) (CTM (gState fixture_extractor))
     = Matrix 1 0 0 1 (float64 (23 / 2)) 0"
  by (simp add: fixture_extractor_def NewTextState_def Mult_def IdentityMatrix_def float64_eval)

lemma fixture_fields:
  "Font (textState fixture_extractor) = Some fixture_font"
  "buffer fixture_extractor = map ch ''Hi''"
  "FontSize (textState fixture_extractor) = float64 10"
  "Scale (textState fixture_extractor) = float64 100"
  "lastX fixture_extractor = float64 10"
  "lastY fixture_extractor = 0"
  "SpaceWidth fixture_font = float64 250"
  by (simp_all add: fixture_extractor_def NewTextState_def fixture_font_def)

lemma fixture_numbers:
  "float64 250 / float64 1000 * float64 10 * (float64 100 / float64 100) = float64 (5 / 2)"
  "(0 :: float64) < float64 (5 / 2)"
  "float64 (5 / 2) * float64 (1 / 2) = float64 (5 / 4)"
  "float64 10 * float64 (1 / 5) = float64 2"
  "float64 (23 / 2) - float64 10 = float64 (3 / 2)"
  "\<not> float64 10 * float64 (1 / 2) < \<bar>(0 :: float64) - 0\<bar>"
  "float64 (5 / 4) < float64 (3 / 2)"
  "\<not> float64 2 < float64 (3 / 2)"
  "\<not> float64 2 \<le> float64 (5 / 4)"
  by (simp_all add: float64_eval)

lemma fixture_decode:
  "text_decode fixture_env (textState fixture_extractor) (map ch ''There'') = map ch ''There''"
  "text_decode_old fixture_env (textState fixture_extractor) (map ch ''There'') = map ch ''There''"
  by (simp_all add: fixture_extractor_def fixture_font_def NewTextState_def
      text_decode_def text_decode_old_def filterControlChars_def isPrintableASCII_def ch_def)

lemma fixture_plain_Mult:
  "Mult (TM (textState fixture_plain)) (CTM (gState fixture_plain))
     = Matrix 1 0 0 1 (float64 0.6000000000000001) 0"
  by (simp add: fixture_plain_def fixture_extractor_def NewTextState_def Mult_def
      IdentityMatrix_def float64_eval)

lemma fixture_plain_fields:
  "Font (textState fixture_plain) = None"
  "buffer fixture_plain = map ch ''Hi''"
  "FontSize (textState fixture_plain) = float64 3"
  "lastX fixture_plain = 0"
  "lastY fixture_plain = 0"
  by (simp_all add: fixture_plain_def fixture_extractor_def NewTextState_def)

lemma fixture_plain_numbers:
  "\<not> (0 :: float64) < 0"
  "float64 3 * float64 (1 / 5) = float64 0.6000000000000001"
  "float64 0.6000000000000001 - 0 = float64 0.6000000000000001"
  "\<not> float64 3 * float64 (1 / 2) < \<bar>(0 :: float64) - 0\<bar>"
  "\<not> float64 0.6000000000000001 < float64 0.6000000000000001"
  "float64 (3 / 5) < float64 0.6000000000000001"
  by (simp_all add: float64_eval)

lemma fixture_plain_decode:
  "text_decode fixture_env (textState fixture_plain) (map ch ''There'') = map ch ''There''"
  by (simp add: fixture_plain_def fixture_extractor_def NewTextState_def
      text_decode_def filterControlChars_def isPrintableASCII_def ch_def)

theorem handleText_space_rule_witness:
  "buffer (handleText fixture_env (StringObject (map ch ''There'')) fixture_extractor)
     = map ch ''Hi There''
   \<and> buffer (handleText_old fixture_env (StringObject (map ch ''There'')) fixture_extractor)
     = map ch ''Hi There''
   \<and> buffer (handleText fixture_env (HexStringObject (map ch ''There'')) fixture_plain)
     = map ch ''HiThere''"
proof -
  have "buffer (handleText fixture_env (HexStringObject (map ch ''There'')) fixture_plain)
          = map ch ''HiThere''"
    using handleText_space_rule [of "HexStringObject (map ch ''There'')" "map ch ''There''"
          fixture_plain fixture_env]
      fixture_plain_decode fixture_plain_numbers
    by (simp add: Let_def fixture_plain_Mult fixture_plain_fields ch_def)
  moreover have "buffer (handleText fixture_env (StringObject (map ch ''There'')) fixture_extractor)
       = map ch ''Hi There''
     \<and> buffer (handleText_old fixture_env (StringObject (map ch ''There'')) fixture_extractor)
       = map ch ''Hi There''"
    using handleText_space_rule [of "StringObject (map ch ''There'')" "map ch ''There''"
          fixture_extractor fixture_env]
      fixture_decode
    by (simp add: Let_def fixture_Mult fixture_fields fixture_numbers ch_def)
  ultimately show ?thesis by simp
qed

text \<open>
  With the default space width 250 at size 10 the code's threshold is 1.25 and the
  claimed one is 2: the gap of 1.5 is greater than the first and not than the second, and
  a space is put between \<open>Hi\<close> and \<open>There\<close>.
\<close>

lemma fixture_threshold:
  "text_threshold (textState fixture_extractor) = float64 1.25"
  by (simp add: text_threshold_def spaceWidth_def fixture_fields fixture_numbers)

lemma fixture_spec_threshold:
  "spec_threshold (FontSize (textState fixture_extractor)) (SpaceWidth fixture_font)
         (Scale (textState fixture_extractor)) = float64 2"
  by (simp add: spec_threshold_def max_def fixture_fields fixture_numbers)

theorem handleText_threshold_counterexample:
  "text_threshold (textState fixture_extractor) = float64 1.25
   \<and> spec_threshold (FontSize (textState fixture_extractor)) (SpaceWidth fixture_font)
         (Scale (textState fixture_extractor)) = float64 2
   \<and> m4 (Mult (TM (textState fixture_extractor)) (CTM (gState fixture_extractor)))
         - lastX fixture_extractor = float64 1.5
   \<and> float64 1.5 > float64 1.25 \<and> \<not> float64 1.5 > float64 2
   \<and> buffer (handleText fixture_env (StringObject (map ch ''There'')) fixture_extractor)
         = map ch ''Hi There''
   \<and> buffer (handleText_old fixture_env (StringObject (map ch ''There'')) fixture_extractor)
         = map ch ''Hi There''"
proof -
  have obj: "StringObject (map ch ''There'') = StringObject (map ch ''There'')
             \<or> StringObject (map ch ''There'') = HexStringObject (map ch ''There'')"
    by simp
  have "buffer (handleText fixture_env (StringObject (map ch ''There'')) fixture_extractor)
         = map ch ''Hi There''
      \<and> buffer (handleText_old fixture_env (StringObject (map ch ''There'')) fixture_extractor)
         = map ch ''Hi There''"
    unfolding handleText_buffer [OF obj] text_break_def fixture_threshold fixture_decode
    by (simp add: fixture_Mult fixture_fields fixture_numbers ch_def)
  then show ?thesis
    using fixture_threshold fixture_spec_threshold
    by (simp add: fixture_Mult fixture_fields fixture_numbers)
qed

section \<open>Text extractor: saving and restoring the graphics state\<close>

text \<open>
  C9. From every state of the extractor, \<open>q\<close> pushes the graphics state and \<open>Q\<close>
  right after it gives back the state the pair started from, the graphics state and the
  stack included; \<open>Q\<close> on an empty stack returns the state unchanged. The operands, if
  any, are ignored.
\<close>

theorem q_then_Q_restores:
  "processOp env \<lparr> Operator = ''q'', Operands = xs \<rparr> e = Inr (e\<lparr> gStack := gStack e @ [gState e] \<rparr>)
   \<and> processOp env \<lparr> Operator = ''Q'', Operands = ys \<rparr> (e\<lparr> gStack := gStack e @ [gState e] \<rparr>) = Inr e
   \<and> (gStack e = [] \<longrightarrow> processOp env \<lparr> Operator = ''Q'', Operands = ys \<rparr> e = Inr e)"
  by (simp add: processOp_def)

theorem q_then_Q_restores_witness:
  "processOp fixture_env \<lparr> Operator = ''q'', Operands = [] \<rparr> fixture_extractor
     = Inr (fixture_extractor\<lparr> gStack := [\<lparr> CTM = Matrix (float64 2) 0 0 (float64 2) (float64 5) (float64 5) \<rparr>, \<lparr> CTM = IdentityMatrix \<rparr>] \<rparr>)
   \<and> processOp fixture_env \<lparr> Operator = ''Q'', Operands = [] \<rparr>
        (fixture_extractor\<lparr> gStack := [\<lparr> CTM = Matrix (float64 2) 0 0 (float64 2) (float64 5) (float64 5) \<rparr>, \<lparr> CTM = IdentityMatrix \<rparr>] \<rparr>)
     = Inr fixture_extractor
   \<and> processOp fixture_env \<lparr> Operator = ''Q'', Operands = [] \<rparr> (fixture_extractor\<lparr> gStack := [] \<rparr>)
     = Inr (fixture_extractor\<lparr> gStack := [] \<rparr>)"
  using q_then_Q_restores [of fixture_env "[]" fixture_extractor "[]"]
    q_then_Q_restores [of fixture_env "[]" "fixture_extractor\<lparr> gStack := [] \<rparr>" "[]"]
  by (simp add: fixture_extractor_def)

section \<open>Reader: a page index out of range\<close>

lemma sint_minus:
  fixes t c :: int64
  assumes "0 \<le> sint c" and "sint c \<le> sint t"
  shows "sint (t - c) = sint t - sint c"
proof -
  have hi: "sint t < 2 ^ 63" using sint_lt [of t] by simp
  have "sint (t - c) = signed_take_bit 63 (sint t - sint c)"
    by (simp add: sint_word_diff)
  also have "\<dots> = sint t - sint c"
    by (rule signed_take_bit_int_eq_self) (use assms hi in simp_all)
  finally show ?thesis .
qed

lemma sint_minus_one:
  fixes t :: int64
  assumes "1 \<le> sint t"
  shows "sint (t - 1) = sint t - 1"
  using sint_minus [of 1 t] assms by simp

lemma skipped_count_bounded:
  assumes "count_bounded kid m" and "skipped_count kid t = Some c"
  shows "0 \<le> sint c \<and> sint c \<le> int m \<and> sint c \<le> sint t"
  using assms
  by (auto simp: count_bounded_def skipped_count_def Let_def word_sless_alt
           split: option.splits Object.splits if_splits)

lemma findPage_out_of_range:
  shows "page_tree True String GetObject node n \<Longrightarrow>
      (\<forall>t. int n \<le> sint t \<longrightarrow>
         (\<exists>fuel0 t'. (\<forall>fuel\<ge>fuel0. findPage fuel String GetObject node t = Some (Inr (None, t')))
                      \<and> sint t - int n \<le> sint t' \<and> sint t' \<le> sint t))"
    and "page_kids True String GetObject kids k \<Longrightarrow>
      (\<forall>t. int k \<le> sint t \<longrightarrow>
         (\<exists>fuel0 t'. (\<forall>fuel\<ge>fuel0. findPage_kids fuel String GetObject kids t = Some (Inr (None, t')))
                      \<and> sint t - int k \<le> sint t' \<and> sint t' \<le> sint t))"
proof (induction rule: page_tree_page_kids.inducts)
  case (leaf node typeObj)
  show ?case
  proof (intro allI impI)
    fix t :: int64
    assume t: "int 1 \<le> sint t"
    then have nz: "t \<noteq> 0" by auto
    have m1: "sint (t - 1) = sint t - 1" using t by (simp add: sint_minus_one)
    have "\<forall>fuel\<ge>Suc 0. findPage fuel String GetObject node t = Some (Inr (None, t - 1))"
    proof (intro allI impI)
      fix fuel :: nat
      assume "Suc 0 \<le> fuel"
      then obtain f where "fuel = Suc f" by (cases fuel) auto
      then show "findPage fuel String GetObject node t = Some (Inr (None, t - 1))"
        using leaf nz by simp
    qed
    with m1 show "\<exists>fuel0 t'. (\<forall>fuel\<ge>fuel0. findPage fuel String GetObject node t = Some (Inr (None, t')))
                      \<and> sint t - int 1 \<le> sint t' \<and> sint t' \<le> sint t"
      by (intro exI [of _ "Suc 0"] exI [of _ "t - 1"]) simp
  qed
next
  case (inner node typeObj kids n)
  show ?case
  proof (intro allI impI)
    fix t :: int64
    assume t: "int n \<le> sint t"
    with inner(5) obtain f0 t' where
      run: "\<forall>fuel\<ge>f0. findPage_kids fuel String GetObject kids t = Some (Inr (None, t'))" and
      bounds: "sint t - int n \<le> sint t'" "sint t' \<le> sint t"
      by blast
    have "\<forall>fuel\<ge>Suc f0. findPage fuel String GetObject node t = Some (Inr (None, t'))"
    proof (intro allI impI)
      fix fuel :: nat
      assume "Suc f0 \<le> fuel"
      then obtain f where f: "fuel = Suc f" "f0 \<le> f" by (cases fuel) auto
      with run have "findPage_kids f String GetObject kids t = Some (Inr (None, t'))" by blast
      with f inner(1,2,3) show "findPage fuel String GetObject node t = Some (Inr (None, t'))"
        by simp
    qed
    with bounds show "\<exists>fuel0 t'. (\<forall>fuel\<ge>fuel0. findPage fuel String GetObject node t = Some (Inr (None, t')))
                      \<and> sint t - int n \<le> sint t' \<and> sint t' \<le> sint t"
      by blast
  qed
next
  case no_kids
  show ?case by auto
next
  case (kid kidRef kid m kids n)
  show ?case
  proof (intro allI impI)
    fix t :: int64
    assume t: "int (m + n) \<le> sint t"
    have bounded: "count_bounded kid m" using kid(4) by simp
    have res: "Resolve GetObject (Some kidRef) = Some (DictionaryObject kid)" using kid(1) .
    show "\<exists>fuel0 t'. (\<forall>fuel\<ge>fuel0. findPage_kids fuel String GetObject (kidRef # kids) t
                               = Some (Inr (None, t')))
                      \<and> sint t - int (m + n) \<le> sint t' \<and> sint t' \<le> sint t"
    proof (cases "skipped_count kid t")
      case (Some c)
      from skipped_count_bounded [OF bounded Some]
      have c: "0 \<le> sint c" "sint c \<le> int m" "sint c \<le> sint t" by simp_all
      then have diff: "sint (t - c) = sint t - sint c" by (simp add: sint_minus)
      with c t have "int n \<le> sint (t - c)" by simp
      with kid(6) obtain f0 t' where
        run: "\<forall>fuel\<ge>f0. findPage_kids fuel String GetObject kids (t - c) = Some (Inr (None, t'))" and
        bounds: "sint (t - c) - int n \<le> sint t'" "sint t' \<le> sint (t - c)"
        by blast
      have "\<forall>fuel\<ge>f0. findPage_kids fuel String GetObject (kidRef # kids) t = Some (Inr (None, t'))"
        using run res Some by simp
      moreover have "sint t - int (m + n) \<le> sint t'" "sint t' \<le> sint t"
        using bounds diff c by simp_all
      ultimately show ?thesis by blast
    next
      case None
      from t have "int m \<le> sint t" by simp
      with kid(3) obtain f1 t1 where
        run1: "\<forall>fuel\<ge>f1. findPage fuel String GetObject kid t = Some (Inr (None, t1))" and
        b1: "sint t - int m \<le> sint t1" "sint t1 \<le> sint t"
        by blast
      from b1 t have "int n \<le> sint t1" by simp
      with kid(6) obtain f2 t2 where
        run2: "\<forall>fuel\<ge>f2. findPage_kids fuel String GetObject kids t1 = Some (Inr (None, t2))" and
        b2: "sint t1 - int n \<le> sint t2" "sint t2 \<le> sint t1"
        by blast
      have "\<forall>fuel\<ge>max f1 f2. findPage_kids fuel String GetObject (kidRef # kids) t
                = Some (Inr (None, t2))"
        using run1 run2 res None by simp
      moreover have "sint t - int (m + n) \<le> sint t2" "sint t2 \<le> sint t"
        using b1 b2 by simp_all
      ultimately show ?thesis by blast
    qed
  qed
qed

text \<open>
  C10, as the code has it. When the catalog and its \<open>/Pages\<close> resolve to dictionaries
  and the page tree is well formed, with every \<open>/Count\<close> of a kid between 0 and the
  number of \<open>/Page\<close> leaves below it, then for every page index greater than or equal
  to the number of leaves \<open>GetPage\<close> returns, at every depth allowance from some
  allowance on, the nil dictionary and no error.
\<close>

theorem GetPage_out_of_range:
  assumes "Resolve GetObject (Trailer xref ''/Root'') = Some (DictionaryObject catDict)"
    and "Resolve GetObject (map_of catDict ''/Pages'') = Some (DictionaryObject rootPagesDict)"
    and "page_tree True String GetObject rootPagesDict n"
    and "int n \<le> sint pageIndex"
  shows "\<exists>fuel0. \<forall>fuel\<ge>fuel0. GetPage fuel String GetObject xref pageIndex = Some (Inr None)"
proof -
  from findPage_out_of_range(1) [OF assms(3)] assms(4)
  obtain fuel0 t' where
    run: "\<forall>fuel\<ge>fuel0. findPage fuel String GetObject rootPagesDict pageIndex = Some (Inr (None, t'))"
    by blast
  have "\<forall>fuel\<ge>fuel0. GetPage fuel String GetObject xref pageIndex = Some (Inr None)"
    using run assms(1,2) by (simp add: GetPage_def)
  then show ?thesis by blast
qed

lemmas page_eval =
  Resolve_def fixture_store_def fixture_catalog_def fixture_pages_def fixture_section_def
  fixture_page1_def fixture_page2_def fixture_String_def fixture_xref_def

lemma fixture_leaves:
  "page_tree strict fixture_String (fixture_store count) fixture_page1 1"
  "page_tree strict fixture_String (fixture_store count) fixture_page2 1"
  by (rule page_tree_page_kids.leaf [where typeObj = "NameObject ''/Page''"],
      simp add: fixture_page1_def, simp add: fixture_String_def,
      rule page_tree_page_kids.leaf [where typeObj = "NameObject ''/Page''"],
      simp add: fixture_page2_def, simp add: fixture_String_def)

lemma fixture_single_kid:
  assumes "Resolve (fixture_store count) (Some kidRef) = Some (DictionaryObject page)"
    and "page_tree strict fixture_String (fixture_store count) page 1"
    and "map_of page ''/Count'' = None"
  shows "page_kids strict fixture_String (fixture_store count) [kidRef] (1 + 0)"
proof (rule page_tree_page_kids.kid [where kid = page])
  show "Resolve (fixture_store count) (Some kidRef) = Some (DictionaryObject page)"
    by (rule assms(1))
  show "page_tree strict fixture_String (fixture_store count) page 1"
    by (rule assms(2))
  show "strict \<longrightarrow> count_bounded page 1"
    by (simp add: count_bounded_def assms(3))
  show "page_kids strict fixture_String (fixture_store count) [] 0"
    by (rule page_tree_page_kids.no_kids)
qed

lemma fixture_section_tree:
  "page_tree strict fixture_String (fixture_store count) (fixture_section count) 1"
proof -
  have "page_kids strict fixture_String (fixture_store count) [IndirectObject 4 0] (1 + 0)"
  proof (rule fixture_single_kid [where page = fixture_page1])
    show "Resolve (fixture_store count) (Some (IndirectObject 4 0))
            = Some (DictionaryObject fixture_page1)"
      by (simp add: Resolve_def fixture_store_def)
    show "page_tree strict fixture_String (fixture_store count) fixture_page1 1"
      by (rule fixture_leaves)
    show "map_of fixture_page1 ''/Count'' = None"
      by (simp add: fixture_page1_def)
  qed
  then have kids: "page_kids strict fixture_String (fixture_store count) [IndirectObject 4 0] 1"
    by simp
  show ?thesis
  proof (rule page_tree_page_kids.inner [where typeObj = "NameObject ''/Pages''"
          and kids = "[IndirectObject 4 0]"])
    show "map_of (fixture_section count) ''/Type'' = Some (NameObject ''/Pages'')"
      by (simp add: fixture_section_def)
    show "fixture_String (NameObject ''/Pages'') \<noteq> ''/Page''"
      by (simp add: fixture_String_def)
    show "Resolve (fixture_store count) (map_of (fixture_section count) ''/Kids'')
            = Some (ArrayObject [IndirectObject 4 0])"
      by (simp add: Resolve_def fixture_section_def)
    show "page_kids strict fixture_String (fixture_store count) [IndirectObject 4 0] 1"
      by (rule kids)
  qed
qed

lemma fixture_pages_tree:
  assumes "strict \<longrightarrow> count_bounded (fixture_section count) 1"
  shows "page_tree strict fixture_String (fixture_store count) fixture_pages 2"
proof -
  have last: "page_kids strict fixture_String (fixture_store count) [IndirectObject 5 0] (1 + 0)"
  proof (rule fixture_single_kid [where page = fixture_page2])
    show "Resolve (fixture_store count) (Some (IndirectObject 5 0))
            = Some (DictionaryObject fixture_page2)"
      by (simp add: Resolve_def fixture_store_def)
    show "page_tree strict fixture_String (fixture_store count) fixture_page2 1"
      by (rule fixture_leaves)
    show "map_of fixture_page2 ''/Count'' = None"
      by (simp add: fixture_page2_def)
  qed
  have sum: "1 + (1 + 0) = (2 :: nat)" by simp
  have kids: "page_kids strict fixture_String (fixture_store count)
          [IndirectObject 3 0, IndirectObject 5 0] 2"
    unfolding sum [symmetric]
  proof (rule page_tree_page_kids.kid [where kid = "fixture_section count"])
    show "Resolve (fixture_store count) (Some (IndirectObject 3 0))
            = Some (DictionaryObject (fixture_section count))"
      by (simp add: Resolve_def fixture_store_def)
    show "page_tree strict fixture_String (fixture_store count) (fixture_section count) 1"
      by (rule fixture_section_tree)
    show "strict \<longrightarrow> count_bounded (fixture_section count) 1"
      by (rule assms)
    show "page_kids strict fixture_String (fixture_store count) [IndirectObject 5 0] (1 + 0)"
      by (rule last)
  qed
  show ?thesis
  proof (rule page_tree_page_kids.inner [where typeObj = "NameObject ''/Pages''"
          and kids = "[IndirectObject 3 0, IndirectObject 5 0]"])
    show "map_of fixture_pages ''/Type'' = Some (NameObject ''/Pages'')"
      by (simp add: fixture_pages_def)
    show "fixture_String (NameObject ''/Pages'') \<noteq> ''/Page''"
      by (simp add: fixture_String_def)
    show "Resolve (fixture_store count) (map_of fixture_pages ''/Kids'')
            = Some (ArrayObject [IndirectObject 3 0, IndirectObject 5 0])"
      by (simp add: Resolve_def fixture_pages_def)
    show "page_kids strict fixture_String (fixture_store count)
            [IndirectObject 3 0, IndirectObject 5 0] 2"
      by (rule kids)
  qed
qed

lemma findPage_numeral:
  "findPage (numeral k) String GetObject node targetIndex =
     (case map_of node ''/Type'' of
        None \<Rightarrow> Some (Inl Panic)
      | Some typeObj \<Rightarrow>
          if String typeObj = ''/Page'' then
            (if targetIndex = 0 then Some (Inr (Some node, targetIndex))
             else Some (Inr (None, targetIndex - 1)))
          else
            (case Resolve GetObject (map_of node ''/Kids'') of
               Some (ArrayObject kids) \<Rightarrow>
                 findPage_kids (pred_numeral k) String GetObject kids targetIndex
             | _ \<Rightarrow> Some (Inl Panic)))"
  using findPage.simps(2) [of "pred_numeral k" String GetObject node targetIndex]
  by (simp only: numeral_eq_Suc)

lemma fixture_eval_good:
  "GetPage 3 fixture_String (fixture_store 1) fixture_xref 2 = Some (Inr None)"
  "GetPage 3 fixture_String (fixture_store 1) fixture_xref 1 = Some (Inr (Some fixture_page2))"
  by (simp_all add: GetPage_def findPage_numeral skipped_count_def word_sless_alt page_eval)

theorem GetPage_out_of_range_witness:
  "page_tree True fixture_String (fixture_store 1) fixture_pages 2
   \<and> GetPage 3 fixture_String (fixture_store 1) fixture_xref 2 = Some (Inr None)
   \<and> GetPage 3 fixture_String (fixture_store 1) fixture_xref 1 = Some (Inr (Some fixture_page2))"
proof -
  have tree: "page_tree True fixture_String (fixture_store 1) fixture_pages 2"
    by (rule fixture_pages_tree) (simp add: count_bounded_def fixture_section_def)
  have root: "Resolve (fixture_store 1) (Trailer fixture_xref ''/Root'')
                = Some (DictionaryObject fixture_catalog)"
    by (simp add: Resolve_def fixture_store_def fixture_xref_def)
  have pages: "Resolve (fixture_store 1) (map_of fixture_catalog ''/Pages'')
                = Some (DictionaryObject fixture_pages)"
    by (simp add: Resolve_def fixture_store_def fixture_catalog_def)
  have idx: "int 2 \<le> sint (2 :: int64)" by simp
  from GetPage_out_of_range [OF root pages tree idx] tree fixture_eval_good
  show ?thesis by simp
qed

text \<open>
  The same document with \<open>/Count 10\<close> on the intermediate node, which has one page:
  the tree has two \<open>/Page\<close> leaves, and \<open>GetPage(10)\<close> passes over the node, takes 10
  off the index and returns the second page.
\<close>

theorem GetPage_count_counterexample:
  "page_tree False fixture_String (fixture_store 10) fixture_pages 2
   \<and> int 2 \<le> sint (10 :: int64)
   \<and> GetPage 3 fixture_String (fixture_store 10) fixture_xref 10 = Some (Inr (Some fixture_page2))"
proof -
  have tree: "page_tree False fixture_String (fixture_store 10) fixture_pages 2"
    by (rule fixture_pages_tree) simp
  have "GetPage 3 fixture_String (fixture_store 10) fixture_xref 10 = Some (Inr (Some fixture_page2))"
    by (simp add: GetPage_def findPage_numeral skipped_count_def word_sless_alt page_eval)
  with tree show ?thesis by simp
qed

end
